theory Spec2Isabelle
  imports Main "HOL-Library.Word"
begin

unbundle bit_operations_syntax

text \<open>
  A model of the Modbus client of node-modbus-serial: the frame decoders and encoders
  and the transaction handling of the class \<open>ModbusRTU\<close>, and the stream reassembly
  of \<open>RTUBufferedPort\<close>. The objects of the program are records, its mutations are
  functions from state to state, and what leaves the program (frames handed to the
  transport, calls of the caller's functions, uncaught exceptions) is recorded in the
  state.
\<close>

section \<open>Buffers\<close>

text \<open>
  A Node \<open>Buffer\<close> is a list of bytes. Reads through the \<open>readXxx\<close> methods raise a
  \<open>RangeError\<close> outside the buffer (\<open>None\<close> here); an indexed read \<open>data[i]\<close> yields
  \<open>undefined\<close> there (also \<open>None\<close>, but the callers treat it as the source does).
  \<open>slice\<close> clamps to the buffer. JavaScript numbers that hold lengths, addresses and
  register values are natural numbers.
\<close>

type_synonym byte = "8 word"
type_synonym bytes = "byte list"

definition index :: "bytes \<Rightarrow> nat \<Rightarrow> nat option" where
  "index data i = (if i < length data then Some (unat (data ! i)) else None)"

definition readUInt8 :: "bytes \<Rightarrow> nat \<Rightarrow> nat option" where
  "readUInt8 data offset = (if offset < length data then Some (unat (data ! offset)) else None)"

definition readInt8 :: "bytes \<Rightarrow> nat \<Rightarrow> int option" where
  "readInt8 data offset = (if offset < length data then Some (sint (data ! offset)) else None)"

definition readUInt16BE :: "bytes \<Rightarrow> nat \<Rightarrow> nat option" where
  "readUInt16BE data offset =
     (if offset + 2 \<le> length data
      then Some (unat (data ! offset) * 256 + unat (data ! (offset + 1))) else None)"

definition readUInt16LE :: "bytes \<Rightarrow> nat \<Rightarrow> nat option" where
  "readUInt16LE data offset =
     (if offset + 2 \<le> length data
      then Some (unat (data ! offset) + unat (data ! (offset + 1)) * 256) else None)"

definition readInt16BE :: "bytes \<Rightarrow> nat \<Rightarrow> int option" where
  "readInt16BE data offset =
     (case readUInt16BE data offset of None \<Rightarrow> None
      | Some v \<Rightarrow> Some (if v < 32768 then int v else int v - 65536))"

definition readUInt32BE :: "bytes \<Rightarrow> nat \<Rightarrow> nat option" where
  "readUInt32BE data offset =
     (if offset + 4 \<le> length data
      then Some (unat (data ! offset) * 16777216 + unat (data ! (offset + 1)) * 65536
                 + unat (data ! (offset + 2)) * 256 + unat (data ! (offset + 3)))
      else None)"

definition slice :: "bytes \<Rightarrow> nat \<Rightarrow> nat \<Rightarrow> bytes" where
  "slice data start end = take (end - start) (drop start data)"

text \<open>The writers raise a \<open>RangeError\<close> for a value that does not fit the field.\<close>

definition writeUInt8 :: "nat \<Rightarrow> bytes option" where
  "writeUInt8 v = (if v \<le> 255 then Some [word_of_nat v] else None)"

definition writeUInt16BE :: "nat \<Rightarrow> bytes option" where
  "writeUInt16BE v =
     (if v \<le> 65535 then Some [word_of_nat (v div 256), word_of_nat (v mod 256)] else None)"

definition writeUInt16LE :: "nat \<Rightarrow> bytes option" where
  "writeUInt16LE v =
     (if v \<le> 65535 then Some [word_of_nat (v mod 256), word_of_nat (v div 256)] else None)"

definition writeUInt32BE :: "nat \<Rightarrow> bytes option" where
  "writeUInt32BE v =
     (if v \<le> 4294967295
      then Some [word_of_nat (v div 16777216), word_of_nat (v div 65536 mod 256),
                 word_of_nat (v div 256 mod 256), word_of_nat (v mod 256)]
      else None)"

text \<open>
  \<open>data.toString("ascii", start, end)\<close>: the bytes of the slice with the high bit
  cleared, one character each.
\<close>

definition ascii_char :: "byte \<Rightarrow> char" where
  "ascii_char b = char_of (unat b AND 0x7F)"

definition toStringAscii :: "bytes \<Rightarrow> nat \<Rightarrow> nat \<Rightarrow> string" where
  "toStringAscii data start end = map ascii_char (slice data start end)"

text \<open>Decimal rendering of a number, as string concatenation does it.\<close>

function dec :: "nat \<Rightarrow> string" where
  "dec n = (if n < 10 then [char_of (48 + n)]
            else dec (n div 10) @ [char_of (48 + n mod 10)])"
  by pat_completeness auto
termination
  by (relation "measure id") auto

declare dec.simps [simp del]

section \<open>CRC16\<close>

text \<open>
  Modelled from the spec: \<open>utils/crc16\<close> is required by the client but is not among the
  sources. Section 4.1 of the specification: standard Modbus CRC-16, initial register
  0xFFFF, polynomial 0xA001, byte-wise, least significant bit first; the frame carries
  the low byte first.
\<close>

definition crc_shift :: "nat \<Rightarrow> nat" where
  "crc_shift crc = (if odd crc then (crc div 2) XOR 0xA001 else crc div 2)"

fun crc_bits :: "nat \<Rightarrow> nat \<Rightarrow> nat" where
  "crc_bits 0 crc = crc"
| "crc_bits (Suc j) crc = crc_bits j (crc_shift crc)"

definition crc_byte :: "nat \<Rightarrow> byte \<Rightarrow> nat" where
  "crc_byte crc b = crc_bits 8 (crc XOR unat b)"

definition crc16 :: "bytes \<Rightarrow> nat" where
  "crc16 buffer = foldl crc_byte 0xFFFF buffer"

section \<open>Results and errors\<close>

text \<open>
  The objects handed to a callback. \<open>DeviceId\<close> holds the object whose keys are
  object ids; \<open>FileRecord\<close> holds a string (reference type 7) or a buffer.
\<close>

datatype payload =
    Empty
  | ReadCoil "bool list" bytes
  | ReadRegister "nat list" bytes
  | WriteCoil nat bool
  | WriteRegister nat nat
  | ExceptionStatus int
  | WriteMultiple nat nat
  | FileRecord "string + bytes" nat
  | DeviceId "nat \<rightharpoonup> string" nat
  | Compressed "int list" nat bytes

record result =
  payload :: payload
  res_request :: "bytes option"
  res_responses :: "bytes list option"

datatype errname =
    PortNotOpenError | BadAddressError | BroadcastNotAllowedError
  | TransactionTimedOutError | Error

record jserr =
  ename :: errname
  message :: string
  modbusCode :: "nat option"
  modbusRequest :: "bytes option"
  modbusResponses :: "bytes list option"

definition mkError :: "errname \<Rightarrow> string \<Rightarrow> jserr" where
  "mkError n msg = \<lparr>ename = n, message = msg, modbusCode = None,
                      modbusRequest = None, modbusResponses = None\<rparr>"

definition newPortNotOpenError :: jserr where
  "newPortNotOpenError = mkError PortNotOpenError ''Port Not Open''"

definition newBadAddressError :: jserr where
  "newBadAddressError = mkError BadAddressError ''Bad Client Address''"

definition newBroadcastNotAllowedError :: jserr where
  "newBroadcastNotAllowedError =
     mkError BroadcastNotAllowedError ''Function does not allow broadcast requests''"

definition newTransactionTimedOutError :: jserr where
  "newTransactionTimedOutError = mkError TransactionTimedOutError ''Timed out''"

definition modbusErrorMessages :: "string list" where
  "modbusErrorMessages =
     [''Unknown error'',
      ''Illegal function (device does not support this read/write function)'',
      ''Illegal data address (register not supported by device)'',
      ''Illegal data value (value cannot be written to this register)'',
      ''Slave device failure (device reports internal error)'',
      ''Acknowledge (requested data will be available later)'',
      ''Slave device busy (retry request again later)'',
      ''Negative acknowledge (device cannot perform action)'',
      ''Memory parity error (failed to read from memory)'',
      ''Gateway path unavailable'',
      ''Gateway target device failed to respond'']"

text \<open>\<open>modbusErrorMessages[errorCode] || "Unknown error"\<close>\<close>

definition errorText :: "nat \<Rightarrow> string" where
  "errorText errorCode =
     (if errorCode < length modbusErrorMessages \<and> modbusErrorMessages ! errorCode \<noteq> []
      then modbusErrorMessages ! errorCode else ''Unknown error'')"

definition newModbusException :: "nat \<Rightarrow> jserr" where
  "newModbusException errorCode =
     (mkError Error (''Modbus exception '' @ dec errorCode @ '': '' @ errorText errorCode))
       \<lparr>modbusCode := Some errorCode\<rparr>"

section \<open>Frame decoders\<close>

text \<open>
  Each decoder yields the object it passes to \<open>next\<close>, or \<open>None\<close> where a read
  raises a \<open>RangeError\<close>.
\<close>

fun coil_bits :: "nat \<Rightarrow> nat \<Rightarrow> bool list" where
  "coil_bits 0 reg = []"
| "coil_bits (Suc j) reg = odd reg # coil_bits j (reg div 2)"

text \<open>
  The outer loop of \<open>_readFC2\<close>. An index past the buffer gives \<open>undefined\<close>, whose
  bits all read as 0.
\<close>

function readFC2_loop :: "bytes \<Rightarrow> nat \<Rightarrow> nat \<Rightarrow> bool list \<Rightarrow> bool list" where
  "readFC2_loop data len i contents =
     (if i < len
      then readFC2_loop data len (i + 1)
             (contents @ coil_bits 8 (case index data (i + 3) of None \<Rightarrow> 0 | Some reg \<Rightarrow> reg))
      else contents)"
  by pat_completeness auto
termination
  by (relation "measure (\<lambda>(data, len, i, contents). len - i)") auto

declare readFC2_loop.simps [simp del]

definition readFC2 :: "bytes \<Rightarrow> payload option" where
  "readFC2 data =
     (case readUInt8 data 2 of None \<Rightarrow> None
      | Some len \<Rightarrow> Some (ReadCoil (readFC2_loop data len 0 []) (slice data 3 (3 + len))))"

function readFC3or4_loop :: "bytes \<Rightarrow> nat \<Rightarrow> nat \<Rightarrow> nat list \<Rightarrow> nat list option" where
  "readFC3or4_loop data len i contents =
     (if i < len
      then (case readUInt16BE data (i + 3) of None \<Rightarrow> None
            | Some reg \<Rightarrow> readFC3or4_loop data len (i + 2) (contents @ [reg]))
      else Some contents)"
  by pat_completeness auto
termination
  by (relation "measure (\<lambda>(data, len, i, contents). len - i)") auto

declare readFC3or4_loop.simps [simp del]

definition readFC3or4 :: "bytes \<Rightarrow> payload option" where
  "readFC3or4 data =
     (case readUInt8 data 2 of None \<Rightarrow> None
      | Some len \<Rightarrow>
          (case readFC3or4_loop data len 0 [] of None \<Rightarrow> None
           | Some contents \<Rightarrow> Some (ReadRegister contents (slice data 3 (3 + len)))))"

function readFC3or4Enron_loop :: "bytes \<Rightarrow> nat \<Rightarrow> nat \<Rightarrow> nat list \<Rightarrow> nat list option" where
  "readFC3or4Enron_loop data len i contents =
     (if i < len
      then (case readUInt32BE data (i + 3) of None \<Rightarrow> None
            | Some reg \<Rightarrow> readFC3or4Enron_loop data len (i + 4) (contents @ [reg]))
      else Some contents)"
  by pat_completeness auto
termination
  by (relation "measure (\<lambda>(data, len, i, contents). len - i)") auto

declare readFC3or4Enron_loop.simps [simp del]

definition readFC3or4Enron :: "bytes \<Rightarrow> payload option" where
  "readFC3or4Enron data =
     (case readUInt8 data 2 of None \<Rightarrow> None
      | Some len \<Rightarrow>
          (case readFC3or4Enron_loop data len 0 [] of None \<Rightarrow> None
           | Some contents \<Rightarrow> Some (ReadRegister contents (slice data 3 (3 + len)))))"

definition readFC5 :: "bytes \<Rightarrow> payload option" where
  "readFC5 data =
     (case readUInt16BE data 2 of None \<Rightarrow> None
      | Some dataAddress \<Rightarrow>
          (case readUInt16BE data 4 of None \<Rightarrow> None
           | Some state \<Rightarrow> Some (WriteCoil dataAddress (state = 0xFF00))))"

definition readFC6 :: "bytes \<Rightarrow> payload option" where
  "readFC6 data =
     (case readUInt16BE data 2 of None \<Rightarrow> None
      | Some dataAddress \<Rightarrow>
          (case readUInt16BE data 4 of None \<Rightarrow> None
           | Some v \<Rightarrow> Some (WriteRegister dataAddress v)))"

definition readFC7 :: "bytes \<Rightarrow> payload option" where
  "readFC7 data =
     (case readInt8 data 2 of None \<Rightarrow> None | Some v \<Rightarrow> Some (ExceptionStatus v))"

definition readFC6Enron :: "bytes \<Rightarrow> payload option" where
  "readFC6Enron data =
     (case readUInt16BE data 2 of None \<Rightarrow> None
      | Some dataAddress \<Rightarrow>
          (case readUInt32BE data 4 of None \<Rightarrow> None
           | Some v \<Rightarrow> Some (WriteRegister dataAddress v)))"

definition readFC16 :: "bytes \<Rightarrow> payload option" where
  "readFC16 data =
     (case readUInt16BE data 2 of None \<Rightarrow> None
      | Some dataAddress \<Rightarrow>
          (case readUInt16BE data 4 of None \<Rightarrow> None
           | Some len \<Rightarrow> Some (WriteMultiple dataAddress len)))"

text \<open>
  \<open>.replace(/\0.*$/g, "")\<close>: the text is cut at the first NUL after which no line
  terminator occurs (\<open>.\<close> does not match one, and \<open>$\<close> is the end of the text).
\<close>

fun stripNul :: "string \<Rightarrow> string" where
  "stripNul [] = []"
| "stripNul (c # cs) =
     (if c = CHR 0x00 \<and> CHR 0x0A \<notin> set cs \<and> CHR 0x0D \<notin> set cs then []
      else c # stripNul cs)"

definition readFC20 :: "bytes \<Rightarrow> payload option" where
  "readFC20 data =
     (case readUInt8 data 3 of None \<Rightarrow> None
      | Some subRequestLength \<Rightarrow>
          (case readUInt8 data 4 of None \<Rightarrow> None
           | Some subRequestRefType \<Rightarrow>
               Some (FileRecord
                 (if subRequestRefType = 7
                  then Inl (stripNul (toStringAscii data 5 (5 + subRequestLength - 1)))
                  else Inr (slice data 5 (5 + subRequestLength - 1)))
                 subRequestLength)))"

text \<open>The object loop of \<open>_readFC43\<close>: \<open>startAt\<close> walks the records.\<close>

function readFC43_loop ::
  "bytes \<Rightarrow> nat \<Rightarrow> nat \<Rightarrow> nat \<Rightarrow> (nat \<rightharpoonup> string) \<Rightarrow> (nat \<rightharpoonup> string) option" where
  "readFC43_loop data numOfObjects i startAt res =
     (if i < numOfObjects
      then (case readUInt8 data startAt of None \<Rightarrow> None
            | Some objectId \<Rightarrow>
                (case readUInt8 data (startAt + 1) of None \<Rightarrow> None
                 | Some objectLength \<Rightarrow>
                     readFC43_loop data numOfObjects (i + 1) (startAt + 2 + objectLength)
                       (res(objectId \<mapsto>
                          toStringAscii data (startAt + 2) (startAt + 2 + objectLength)))))
      else Some res)"
  by pat_completeness auto
termination
  by (relation "measure (\<lambda>(data, numOfObjects, i, startAt, res). numOfObjects - i)") auto

declare readFC43_loop.simps [simp del]

function readFC65_loop :: "bytes \<Rightarrow> nat \<Rightarrow> nat \<Rightarrow> int list \<Rightarrow> int list option" where
  "readFC65_loop data len i contents =
     (if i + 2 < len
      then (case readInt16BE data (5 + i) of None \<Rightarrow> None
            | Some reg \<Rightarrow> readFC65_loop data len (i + 2) (contents @ [reg]))
      else Some contents)"
  by pat_completeness auto
termination
  by (relation "measure (\<lambda>(data, len, i, contents). len - i)") auto

declare readFC65_loop.simps [simp del]

definition readFC65 :: "bytes \<Rightarrow> payload option" where
  "readFC65 data =
     (case readUInt8 data 2 of None \<Rightarrow> None
      | Some len \<Rightarrow>
          (case readUInt16BE data 3 of None \<Rightarrow> None
           | Some errorFlags \<Rightarrow>
               (case readFC65_loop data len 0 [] of None \<Rightarrow> None
                | Some contents \<Rightarrow>
                    Some (Compressed contents errorFlags (slice data 3 (3 + len))))))"

section \<open>The buffered RTU port\<close>

text \<open>
  \<open>RTUBufferedPort\<close>: the private fields \<open>_buffer\<close>, \<open>_id\<close>, \<open>_cmd\<close> and \<open>_length\<close>
  (a number or the string "unknown"), the buffers passed on to the serial client and the
  frames emitted as "data" events, in order.
\<close>

definition EXCEPTION_LENGTH :: nat where
  [simp]: "EXCEPTION_LENGTH = 5"
definition MIN_DATA_LENGTH :: nat where
  [simp]: "MIN_DATA_LENGTH = 6"
definition MAX_BUFFER_LENGTH :: nat where
  [simp]: "MAX_BUFFER_LENGTH = 256"
definition CRC_LENGTH :: nat where
  [simp]: "CRC_LENGTH = 2"
definition READ_FILE_RECORD_FUNCTION_CODE :: nat where
  [simp]: "READ_FILE_RECORD_FUNCTION_CODE = 20"
definition READ_DEVICE_IDENTIFICATION_FUNCTION_CODE :: nat where
  [simp]: "READ_DEVICE_IDENTIFICATION_FUNCTION_CODE = 43"
definition READ_COMPRESSED_FUNCTION_CODE :: nat where
  [simp]: "READ_COMPRESSED_FUNCTION_CODE = 65"
definition BITS_TO_NUM_OF_OBJECTS :: nat where
  [simp]: "BITS_TO_NUM_OF_OBJECTS = 7"
definition BYTES_TO_READ_FILE_TOTAL_LENGTH :: nat where
  [simp]: "BYTES_TO_READ_FILE_TOTAL_LENGTH = 3"

datatype expected_length = Known nat | LengthUnknown

record rtu_port =
  rtu_buffer :: bytes
  rtu_id :: nat
  rtu_cmd :: nat
  rtu_length :: expected_length
  rtu_client :: "bytes list"
  rtu_emitted :: "bytes list"

definition new_rtu_port :: rtu_port where
  "new_rtu_port = \<lparr>rtu_buffer = [], rtu_id = 0, rtu_cmd = 0, rtu_length = Known 0,
                     rtu_client = [], rtu_emitted = []\<rparr>"

text \<open>
  The loop of \<open>calculateFC43Length\<close>; the result is \<open>hasAllData\<close> and \<open>currentByte\<close>.
  A missing or zero \<open>objLength\<close> stops the walk.
\<close>

function calculateFC43_loop :: "bytes \<Rightarrow> nat \<Rightarrow> nat \<Rightarrow> nat \<Rightarrow> nat \<Rightarrow> bool \<times> nat" where
  "calculateFC43_loop buffer numObjects bufferLength j currentByte =
     (if j < numObjects
      then (if bufferLength < currentByte then (False, currentByte)
            else (case index buffer (currentByte + 1) of
                    None \<Rightarrow> (False, currentByte)
                  | Some objLength \<Rightarrow>
                      if objLength = 0 then (False, currentByte)
                      else calculateFC43_loop buffer numObjects bufferLength (j + 1)
                             (currentByte + 2 + objLength)))
      else (True, currentByte))"
  by pat_completeness auto
termination
  by (relation "measure (\<lambda>(buffer, numObjects, bufferLength, j, currentByte). numObjects - j)")
    auto

declare calculateFC43_loop.simps [simp del]

text \<open>\<open>Some bufLength\<close> when \<open>hasAllData\<close>, else \<open>None\<close>.\<close>

definition calculateFC43Length :: "bytes \<Rightarrow> nat \<Rightarrow> nat \<Rightarrow> nat \<Rightarrow> nat option" where
  "calculateFC43Length buffer numObjects i bufferLength =
     (case (if numObjects > 0 then calculateFC43_loop buffer numObjects bufferLength 0 (8 + i)
            else (True, 8 + i)) of
        (hasAllData, currentByte) \<Rightarrow>
          if currentByte + CRC_LENGTH > bufferLength then None
          else if hasAllData then Some (currentByte + CRC_LENGTH) else None)"

definition emitData :: "nat \<Rightarrow> nat \<Rightarrow> rtu_port \<Rightarrow> rtu_port" where
  "emitData start len p =
     p\<lparr>rtu_emitted := rtu_emitted p @ [slice (rtu_buffer p) start (start + len)],
       rtu_buffer := drop (start + len) (rtu_buffer p)\<rparr>"

text \<open>
  One pass through the body of the scan loop at offset \<open>i\<close>: emit a frame and return,
  return, break, or go on with the next offset.
\<close>

datatype scan_result = Emit nat nat | Return | Break | Continue

definition scan_step :: "rtu_port \<Rightarrow> nat \<Rightarrow> nat \<Rightarrow> scan_result" where
  "scan_step p bufferLength i =
     (let unitId = index (rtu_buffer p) i;
          functionCode = index (rtu_buffer p) (i + 1)
      in if unitId \<noteq> Some (rtu_id p) then Continue
         else
           (case
              (if functionCode = Some (rtu_cmd p)
                  \<and> functionCode = Some READ_DEVICE_IDENTIFICATION_FUNCTION_CODE
               then (if bufferLength \<le> BITS_TO_NUM_OF_OBJECTS + i then Some Return
                     else (case calculateFC43Length (rtu_buffer p)
                                  (case index (rtu_buffer p) (7 + i) of None \<Rightarrow> 0 | Some n \<Rightarrow> n)
                                  i bufferLength of
                             Some bufLength \<Rightarrow> Some (Emit i bufLength)
                           | None \<Rightarrow> None))
               else if functionCode = Some (rtu_cmd p)
                  \<and> functionCode = Some READ_FILE_RECORD_FUNCTION_CODE
               then (if bufferLength \<le> BYTES_TO_READ_FILE_TOTAL_LENGTH + i then Some Return
                     else (case index (rtu_buffer p) (BYTES_TO_READ_FILE_TOTAL_LENGTH - 1 + i) of
                             None \<Rightarrow> None
                           | Some responseDataLength \<Rightarrow>
                               (let calculatedExpectedLength =
                                      1 + 1 + 1 + responseDataLength + CRC_LENGTH
                                in if bufferLength \<ge> calculatedExpectedLength
                                   then Some (Emit i calculatedExpectedLength) else None)))
               else (case rtu_length p of
                       Known expectedLength \<Rightarrow>
                         if functionCode = Some (rtu_cmd p) \<and> i + expectedLength \<le> bufferLength
                         then Some (Emit i expectedLength)
                         else if functionCode = Some (0x80 OR rtu_cmd p)
                                 \<and> i + EXCEPTION_LENGTH \<le> bufferLength
                         then Some (Emit i EXCEPTION_LENGTH) else None
                     | LengthUnknown \<Rightarrow>
                         if functionCode = Some (0x80 OR rtu_cmd p)
                            \<and> i + EXCEPTION_LENGTH \<le> bufferLength
                         then Some (Emit i EXCEPTION_LENGTH) else None))
            of Some r \<Rightarrow> r
             | None \<Rightarrow> if functionCode = Some (0x7F AND rtu_cmd p) then Break else Continue))"

function scan :: "rtu_port \<Rightarrow> nat \<Rightarrow> nat \<Rightarrow> nat \<Rightarrow> rtu_port" where
  "scan p bufferLength maxOffset i =
     (if i \<le> maxOffset
      then (case scan_step p bufferLength i of
              Emit start len \<Rightarrow> emitData start len p
            | Return \<Rightarrow> p
            | Break \<Rightarrow> p
            | Continue \<Rightarrow> scan p bufferLength maxOffset (i + 1))
      else p)"
  by pat_completeness auto
termination
  by (relation "measure (\<lambda>(p, bufferLength, maxOffset, i). Suc maxOffset - i)") auto

declare scan.simps [simp del]

text \<open>The "data" listener of the serial client.\<close>

definition onData :: "bytes \<Rightarrow> rtu_port \<Rightarrow> rtu_port" where
  "onData data p0 =
     (let p = p0\<lparr>rtu_buffer := rtu_buffer p0 @ data\<rparr>;
          expectedLength = rtu_length p;
          bufferLength = length (rtu_buffer p)
      in if (expectedLength \<noteq> LengthUnknown
               \<and> (case expectedLength of Known n \<Rightarrow> n < MIN_DATA_LENGTH | LengthUnknown \<Rightarrow> False))
            \<or> bufferLength < EXCEPTION_LENGTH
         then p
         else if bufferLength > MAX_BUFFER_LENGTH
         then scan (p\<lparr>rtu_buffer := drop (bufferLength - MAX_BUFFER_LENGTH) (rtu_buffer p)\<rparr>)
                MAX_BUFFER_LENGTH (MAX_BUFFER_LENGTH - EXCEPTION_LENGTH) 0
         else scan p bufferLength (bufferLength - EXCEPTION_LENGTH) 0)"

text \<open>
  \<open>RTUBufferedPort.write\<close>. \<open>parseInt((length - 1) / 8 + 1)\<close> is \<open>(length + 7) div 8\<close>
  for a quantity read from the frame.
\<close>

definition rtu_write :: "bytes \<Rightarrow> rtu_port \<Rightarrow> rtu_port" where
  "rtu_write data p =
     (if length data < MIN_DATA_LENGTH then p
      else
        (let cmd = unat (data ! 1);
             len = unat (data ! 4) * 256 + unat (data ! 5)
         in p\<lparr>rtu_id := unat (data ! 0),
              rtu_cmd := cmd,
              rtu_length :=
                (if cmd = 1 \<or> cmd = 2 then Known (3 + (len + 7) div 8 + 2)
                 else if cmd = 3 \<or> cmd = 4 then Known (3 + 2 * len + 2)
                 else if cmd = 5 \<or> cmd = 6 \<or> cmd = 15 \<or> cmd = 16 then Known (6 + 2)
                 else if cmd = READ_FILE_RECORD_FUNCTION_CODE then LengthUnknown
                 else if cmd = READ_DEVICE_IDENTIFICATION_FUNCTION_CODE then LengthUnknown
                 else if cmd = READ_COMPRESSED_FUNCTION_CODE
                 then Known (4 + 2 * unat (data ! 2) + 2)
                 else Known 0),
              rtu_client := rtu_client p @ [data]\<rparr>))"

section \<open>The client\<close>

text \<open>
  A callback is a value: \<open>UserCb k\<close> is the caller's function number \<open>k\<close>, whose
  invocations are recorded; \<open>MergeCb result ref next\<close> is the closure \<open>cb\<close> that
  \<open>_readFC43\<close> passes to the follow-up request. It holds the objects read so far and the
  closure \<open>next\<close> of the \<open>_onReceive\<close> call that built it, which is the transaction
  object at address \<open>ref\<close> together with that transaction's own callback (the field
  \<open>next\<close> of a transaction is written once, when the slot is filled). \<open>NoCallback\<close> is
  \<open>undefined\<close>.
\<close>

datatype callback = NoCallback | UserCb nat | MergeCb "nat \<rightharpoonup> string" nat callback

text \<open>
  A transaction object. \<open>tnext\<close> is its field \<open>next\<close>; \<open>timeoutFired\<close> is read only by
  \<open>=== true\<close>, so \<open>undefined\<close> and \<open>false\<close> are both \<open>False\<close>.
\<close>

record transaction =
  nextAddress :: nat
  nextDataAddress :: "nat option"
  nextCode :: nat
  nextLength :: "nat option"
  lengthUnknown :: bool
  tnext :: callback
  timeoutFired :: bool
  timeoutHandle :: "nat option"
  request :: "bytes option"
  responses :: "bytes list option"

definition newTransaction ::
  "nat \<Rightarrow> nat option \<Rightarrow> nat \<Rightarrow> nat option \<Rightarrow> bool \<Rightarrow> callback \<Rightarrow> transaction" where
  "newTransaction address dataAddress code len unknown nxt =
     \<lparr>nextAddress = address, nextDataAddress = dataAddress, nextCode = code,
      nextLength = len, lengthUnknown = unknown, tnext = nxt, timeoutFired = False,
      timeoutHandle = None, request = None, responses = None\<rparr>"

text \<open>
  The transport as the client sees it: whether it is open, the two transaction ids
  (\<open>undefined\<close> until \<open>open\<close> sets them) and the buffers handed to its \<open>write\<close>.
\<close>

record port_state =
  isOpen :: bool
  transactionIdRead :: "nat option"
  transactionIdWrite :: "nat option"
  written :: "bytes list"

datatype exn = RangeError | TypeError

text \<open>
  The client object and what it has done. Transaction objects live in \<open>heap\<close>, a slot
  of \<open>transactions\<close> and a pending timer hold the address of one. \<open>timeout\<close> is the
  duration in milliseconds (\<open>None\<close> for \<open>null\<close>); \<open>enronTables\<close> is the
  \<open>shortRange\<close> of the tables. \<open>calls\<close> lists the invocations of the caller's
  functions in order, \<open>crashes\<close> the exceptions that left a call of the client.
\<close>

record modbus =
  port :: port_state
  transactions :: "nat option \<rightharpoonup> nat"
  heap :: "nat \<Rightarrow> transaction"
  heapSize :: nat
  timeout :: "nat option"
  unitID :: nat
  debugEnabled :: bool
  enron :: bool
  enronTables :: "nat list option"
  timers :: "nat \<rightharpoonup> nat"
  timerSeq :: nat
  calls :: "(nat \<times> jserr option \<times> result option) list"
  crashes :: "exn list"

definition new_modbus :: "port_state \<Rightarrow> modbus" where
  "new_modbus p =
     \<lparr>port = p, transactions = Map.empty,
      heap = (\<lambda>ref. newTransaction 0 None 0 None False NoCallback), heapSize = 0,
      timeout = None, unitID = 1, debugEnabled = False, enron = False, enronTables = None,
      timers = Map.empty, timerSeq = 0, calls = [], crashes = []\<rparr>"

definition closed_port :: port_state where
  "closed_port = \<lparr>isOpen = False, transactionIdRead = None, transactionIdWrite = None,
                    written = []\<rparr>"

text \<open>\<open>open\<close>, when the transport reports success.\<close>

definition modbus_open :: "modbus \<Rightarrow> modbus" where
  "modbus_open e =
     e\<lparr>port := (port e)\<lparr>isOpen := True, transactionIdRead := Some 1,
                           transactionIdWrite := Some 1\<rparr>\<rparr>"

definition setTimeout :: "nat option \<Rightarrow> modbus \<Rightarrow> modbus" where
  "setTimeout duration e = e\<lparr>timeout := duration\<rparr>"

definition setDebugEnabled :: "bool \<Rightarrow> modbus \<Rightarrow> modbus" where
  "setDebugEnabled enable e = e\<lparr>debugEnabled := enable\<rparr>"

definition throw :: "exn \<Rightarrow> modbus \<Rightarrow> modbus" where
  "throw x e = e\<lparr>crashes := crashes e @ [x]\<rparr>"

definition update :: "nat \<Rightarrow> (transaction \<Rightarrow> transaction) \<Rightarrow> modbus \<Rightarrow> modbus" where
  "update ref f e = e\<lparr>heap := (heap e)(ref := f (heap e ref))\<rparr>"

text \<open>
  The request and the responses are added to the error and to the result when the
  transaction has both.
\<close>

definition attach ::
  "transaction \<Rightarrow> jserr option \<Rightarrow> result option \<Rightarrow> jserr option \<times> result option" where
  "attach t err res =
     (if request t \<noteq> None \<and> responses t \<noteq> None
      then (map_option (\<lambda>x. x\<lparr>modbusRequest := request t,
                                modbusResponses := responses t\<rparr>) err,
            map_option (\<lambda>r. r\<lparr>res_request := request t,
                                res_responses := responses t\<rparr>) res)
      else (err, res))"

text \<open>
  Calling a callback with \<open>(err, res)\<close>. Calling \<open>undefined\<close> is a \<open>TypeError\<close>.
  \<open>cb\<close> reads \<open>data.data\<close>: without \<open>data\<close>, or with a result that has no object
  there, \<open>Object.assign\<close> raises a \<open>TypeError\<close>; otherwise the earlier objects are
  copied over the newer ones and the captured \<open>next\<close> is called. (Only an FC43
  transaction has this callback, so a result passed to it is a \<open>DeviceId\<close>.)
\<close>

fun invoke :: "callback \<Rightarrow> jserr option \<Rightarrow> result option \<Rightarrow> modbus \<Rightarrow> modbus" where
  "invoke NoCallback err res e = throw TypeError e"
| "invoke (UserCb k) err res e = e\<lparr>calls := calls e @ [(k, err, res)]\<rparr>"
| "invoke (MergeCb result ref nxt) err res e =
     (case res of
        None \<Rightarrow> throw TypeError e
      | Some data \<Rightarrow>
          (case payload data of
             DeviceId objects conformityLevel \<Rightarrow>
               (if nxt \<noteq> NoCallback
                then (case attach (heap e ref) err
                             (Some (data\<lparr>payload := DeviceId (objects ++ result) conformityLevel\<rparr>)) of
                        (err', res') \<Rightarrow> invoke nxt err' res' e)
                else e)
           | _ \<Rightarrow> throw TypeError e))"

text \<open>The closure \<open>next\<close> of \<open>_onReceive\<close>, for the transaction at \<open>ref\<close>.\<close>

definition callNext :: "nat \<Rightarrow> jserr option \<Rightarrow> result option \<Rightarrow> modbus \<Rightarrow> modbus" where
  "callNext ref err res e =
     (if tnext (heap e ref) \<noteq> NoCallback
      then (case attach (heap e ref) err res of
              (err', res') \<Rightarrow> invoke (tnext (heap e ref)) err' res' e)
      else e)"

text \<open>\<open>if (next) next(new SomeError())\<close>\<close>

definition report :: "callback \<Rightarrow> jserr \<Rightarrow> modbus \<Rightarrow> modbus" where
  "report nxt err e = (if nxt \<noteq> NoCallback then invoke nxt (Some err) None e else e)"

text \<open>
  \<open>_startTimeout\<close>: no timer for a falsy duration; otherwise a fresh handle whose timer
  will run \<open>fireTimeout\<close> on the transaction.
\<close>

definition startTimeout :: "nat option \<Rightarrow> nat \<Rightarrow> modbus \<Rightarrow> nat option \<times> modbus" where
  "startTimeout duration ref e =
     (if duration = None \<or> duration = Some 0 then (None, e)
      else (Some (timerSeq e),
            e\<lparr>timers := (timers e)(timerSeq e \<mapsto> ref), timerSeq := timerSeq e + 1\<rparr>))"

text \<open>The function given to the timer, run when timer \<open>h\<close> is pending and elapses.\<close>

definition fireTimeout :: "nat \<Rightarrow> modbus \<Rightarrow> modbus" where
  "fireTimeout h e =
     (case timers e h of
        None \<Rightarrow> e
      | Some ref \<Rightarrow>
          (let e1 = update ref (\<lambda>t. t\<lparr>timeoutFired := True\<rparr>) (e\<lparr>timers := (timers e)(h := None)\<rparr>);
               t = heap e1 ref
           in if tnext t \<noteq> NoCallback
              then invoke (tnext t)
                     (Some (if request t \<noteq> None \<and> responses t \<noteq> None
                            then newTransactionTimedOutError
                                   \<lparr>modbusRequest := request t, modbusResponses := responses t\<rparr>
                            else newTransactionTimedOutError))
                     None e1
              else e1))"

definition cancelTimeout :: "nat option \<Rightarrow> modbus \<Rightarrow> modbus" where
  "cancelTimeout handle e =
     (case handle of None \<Rightarrow> e | Some h \<Rightarrow> e\<lparr>timers := (timers e)(h := None)\<rparr>)"

definition writeBufferToPort :: "bytes \<Rightarrow> nat option \<Rightarrow> modbus \<Rightarrow> modbus" where
  "writeBufferToPort buffer transactionId e =
     (let e1 =
            (case transactions e transactionId of
               None \<Rightarrow> e
             | Some ref \<Rightarrow>
                 (let e' =
                        (if (case nextLength (heap e ref) of None \<Rightarrow> False | Some n \<Rightarrow> n > 0)
                         then (case startTimeout (timeout e) ref
                                      (update ref (\<lambda>t. t\<lparr>timeoutFired := False\<rparr>) e) of
                                 (h, e'') \<Rightarrow> update ref (\<lambda>t. t\<lparr>timeoutHandle := h\<rparr>) e'')
                         else e)
                  in if debugEnabled e'
                     then update ref (\<lambda>t. t\<lparr>request := Some buffer, responses := Some []\<rparr>) e'
                     else e'));
          e2 = e1\<lparr>port := (port e1)\<lparr>written := written (port e1) @ [buffer]\<rparr>\<rparr>
      in (case transactions e2 transactionId of
            None \<Rightarrow> e2
          | Some ref \<Rightarrow>
              if nextLength (heap e2 ref) = Some 0
              then invoke (tnext (heap e2 ref)) None
                     (Some \<lparr>payload = Empty, res_request = None, res_responses = None\<rparr>) e2
              else e2))"

text \<open>
  \<open>this._transactions[this._port._transactionIdWrite] = {...}\<close>: a new object, whose
  address goes into the slot.
\<close>

definition setTransaction :: "transaction \<Rightarrow> modbus \<Rightarrow> modbus" where
  "setTransaction t e =
     e\<lparr>heap := (heap e)(heapSize e := t), heapSize := heapSize e + 1,
       transactions := (transactions e)(transactionIdWrite (port e) \<mapsto> heapSize e)\<rparr>"

text \<open>
  The frame: the fields in buffer order, then the CRC of what precedes it, low byte
  first. \<open>None\<close> when one of the writes raises.
\<close>

fun fields :: "bytes option list \<Rightarrow> bytes option" where
  "fields [] = Some []"
| "fields (None # fs) = None"
| "fields (Some b # fs) = (case fields fs of None \<Rightarrow> None | Some bs \<Rightarrow> Some (b @ bs))"

definition frame :: "bytes option list \<Rightarrow> bytes option" where
  "frame fs =
     (case fields fs of
        None \<Rightarrow> None
      | Some body \<Rightarrow>
          (case writeUInt16LE (crc16 body) of None \<Rightarrow> None | Some crc \<Rightarrow> Some (body @ crc)))"

text \<open>Hand the frame to \<open>_writeBufferToPort\<close>, or leave with the \<open>RangeError\<close>.\<close>

definition send :: "bytes option \<Rightarrow> modbus \<Rightarrow> modbus" where
  "send buf e =
     (case buf of
        None \<Rightarrow> throw RangeError e
      | Some b \<Rightarrow> writeBufferToPort b (transactionIdWrite (port e)) e)"

text \<open>
  \<open>this._enron && !(dataAddress >= shortRange[0] && dataAddress <= shortRange[1])\<close>;
  \<open>None\<close> is the \<open>TypeError\<close> of reading \<open>shortRange\<close> from missing tables. A
  comparison with a missing entry is false.
\<close>

definition inShortRange :: "nat list \<Rightarrow> nat option \<Rightarrow> bool" where
  "inShortRange shortRange dataAddress =
     (case dataAddress of
        None \<Rightarrow> False
      | Some a \<Rightarrow> 0 < length shortRange \<and> shortRange ! 0 \<le> a
                  \<and> 1 < length shortRange \<and> a \<le> shortRange ! 1)"

definition enronWide :: "modbus \<Rightarrow> nat option \<Rightarrow> bool option" where
  "enronWide e dataAddress =
     (if \<not> enron e then Some False
      else (case enronTables e of
              None \<Rightarrow> None
            | Some shortRange \<Rightarrow> Some (\<not> inShortRange shortRange dataAddress)))"

definition writeFC2 ::
  "nat option \<Rightarrow> nat option \<Rightarrow> nat \<Rightarrow> callback \<Rightarrow> nat option \<Rightarrow> modbus \<Rightarrow> modbus" where
  "writeFC2 address dataAddress len nxt code0 e =
     (if \<not> isOpen (port e) then report nxt newPortNotOpenError e
      else if address = None \<or> dataAddress = None then report nxt newBadAddressError e
      else if address = Some 0 then report nxt newBroadcastNotAllowedError e
      else
        (let code = (case code0 of None \<Rightarrow> 2 | Some c \<Rightarrow> if c = 0 then 2 else c);
             e1 = setTransaction
                    (newTransaction (the address) None code (Some (3 + (len + 7) div 8 + 2))
                       False nxt) e
         in send (frame [writeUInt8 (the address), writeUInt8 code,
                         writeUInt16BE (the dataAddress), writeUInt16BE len]) e1))"

definition writeFC1 :: "nat option \<Rightarrow> nat option \<Rightarrow> nat \<Rightarrow> callback \<Rightarrow> modbus \<Rightarrow> modbus" where
  "writeFC1 address dataAddress len nxt e = writeFC2 address dataAddress len nxt (Some 1) e"

definition writeFC4 ::
  "nat option \<Rightarrow> nat option \<Rightarrow> nat \<Rightarrow> callback \<Rightarrow> nat option \<Rightarrow> modbus \<Rightarrow> modbus" where
  "writeFC4 address dataAddress len nxt code0 e =
     (if \<not> isOpen (port e) then report nxt newPortNotOpenError e
      else if address = None \<or> dataAddress = None then report nxt newBadAddressError e
      else if address = Some 0 then report nxt newBroadcastNotAllowedError e
      else
        (let code = (case code0 of None \<Rightarrow> 4 | Some c \<Rightarrow> if c = 0 then 4 else c)
         in (case enronWide e dataAddress of
               None \<Rightarrow> throw TypeError e
             | Some wide \<Rightarrow>
                 (let valueSize = (if wide then 4 else 2);
                      e1 = setTransaction
                             (newTransaction (the address) dataAddress code
                                (Some (3 + valueSize * len + 2)) False nxt) e
                  in send (frame [writeUInt8 (the address), writeUInt8 code,
                                  writeUInt16BE (the dataAddress), writeUInt16BE len]) e1))))"

definition writeFC3 :: "nat option \<Rightarrow> nat option \<Rightarrow> nat \<Rightarrow> callback \<Rightarrow> modbus \<Rightarrow> modbus" where
  "writeFC3 address dataAddress len nxt e = writeFC4 address dataAddress len nxt (Some 3) e"

definition writeFC5 :: "nat option \<Rightarrow> nat option \<Rightarrow> bool \<Rightarrow> callback \<Rightarrow> modbus \<Rightarrow> modbus" where
  "writeFC5 address dataAddress state nxt e =
     (if \<not> isOpen (port e) then report nxt newPortNotOpenError e
      else if address = None \<or> dataAddress = None then report nxt newBadAddressError e
      else
        (let responseLength = (if address = Some 0 then 0 else 8);
             code = 5;
             e1 = setTransaction
                    (newTransaction (the address) None code (Some responseLength) False nxt) e
         in send (frame [writeUInt8 (the address), writeUInt8 code,
                         writeUInt16BE (the dataAddress),
                         (if state then writeUInt16BE 0xFF00 else writeUInt16BE 0x0000)]) e1))"

definition writeFC7 :: "nat option \<Rightarrow> callback \<Rightarrow> modbus \<Rightarrow> modbus" where
  "writeFC7 address nxt e =
     (if \<not> isOpen (port e) then report nxt newPortNotOpenError e
      else if address = None then report nxt newBadAddressError e
      else if address = Some 0 then report nxt newBroadcastNotAllowedError e
      else
        (let code = 7;
             e1 = setTransaction (newTransaction (the address) None code (Some 5) False nxt) e
         in send (frame [writeUInt8 (the address), writeUInt8 code]) e1))"

definition writeFC43 :: "nat option \<Rightarrow> nat \<Rightarrow> nat \<Rightarrow> callback \<Rightarrow> modbus \<Rightarrow> modbus" where
  "writeFC43 address deviceIdCode objectId nxt e =
     (if \<not> isOpen (port e) then report nxt newPortNotOpenError e
      else if address = None then report nxt newBadAddressError e
      else if address = Some 0 then report nxt newBroadcastNotAllowedError e
      else
        (let code = 0x2B;
             e1 = setTransaction (newTransaction (the address) None code None True nxt) e
         in send (frame [writeUInt8 (the address), writeUInt8 code, writeUInt8 0x0E,
                         writeUInt8 deviceIdCode, writeUInt8 objectId]) e1))"

text \<open>
  \<open>writeFC6\<close> with a number as value, \<open>writeFC16\<close> with an array of numbers or a
  buffer (whose pairs of bytes are the registers), \<open>writeFC20\<close> and \<open>writeFC65\<close>.
  (\<open>writeFC15\<close> packs its coils with \<open>Buffer.writeBit\<close> of \<open>utils/buffer_bit\<close>, which
  is not among the sources; it reaches the transport through \<open>_writeBufferToPort\<close>
  like the others.)
\<close>

definition writeFC6 :: "nat option \<Rightarrow> nat option \<Rightarrow> nat \<Rightarrow> callback \<Rightarrow> modbus \<Rightarrow> modbus" where
  "writeFC6 address dataAddress v nxt e =
     (if \<not> isOpen (port e) then report nxt newPortNotOpenError e
      else if address = None \<or> dataAddress = None then report nxt newBadAddressError e
      else
        (case enronWide e dataAddress of
           None \<Rightarrow> throw TypeError e
         | Some wide \<Rightarrow>
             (let code = 6;
                  responseLength = (if address = Some 0 then 0 else if wide then 10 else 8);
                  e1 = setTransaction
                         (newTransaction (the address) dataAddress code (Some responseLength)
                            False nxt) e
              in send (frame [writeUInt8 (the address), writeUInt8 code,
                              writeUInt16BE (the dataAddress),
                              (if wide then writeUInt32BE v else writeUInt16BE v)]) e1)))"

definition writeFC16 ::
  "nat option \<Rightarrow> nat option \<Rightarrow> nat list + bytes \<Rightarrow> callback \<Rightarrow> modbus \<Rightarrow> modbus" where
  "writeFC16 address dataAddress array nxt e =
     (if \<not> isOpen (port e) then report nxt newPortNotOpenError e
      else if address = None \<or> dataAddress = None then report nxt newBadAddressError e
      else
        (let code = 16;
             responseLength = (if address = Some 0 then 0 else 8);
             e1 = setTransaction
                    (newTransaction (the address) None code (Some responseLength) False nxt) e
         in send (frame
                    ([writeUInt8 (the address), writeUInt8 code, writeUInt16BE (the dataAddress)]
                     @ (case array of
                          Inl xs \<Rightarrow>
                            [writeUInt16BE (length xs), writeUInt8 (length xs * 2)]
                            @ map writeUInt16BE xs
                        | Inr buf \<Rightarrow>
                            [writeUInt16BE (length buf div 2), writeUInt8 (length buf),
                             Some buf]))) e1))"

definition writeFC20 ::
  "nat option \<Rightarrow> nat \<Rightarrow> nat \<Rightarrow> nat \<Rightarrow> nat \<Rightarrow> callback \<Rightarrow> modbus \<Rightarrow> modbus" where
  "writeFC20 address fileNumber recordNumber recordLength referenceType nxt e =
     (if \<not> isOpen (port e) then report nxt newPortNotOpenError e
      else if address = None then report nxt newBadAddressError e
      else if address = Some 0 then report nxt newBroadcastNotAllowedError e
      else
        (let code = 20;
             byteCount = 7;
             responseLength = 5 + recordLength * 2 + 2;
             e1 = setTransaction
                    (newTransaction (the address) None code (Some responseLength) False nxt) e
         in send (frame [writeUInt8 (the address), writeUInt8 code, writeUInt8 byteCount,
                         writeUInt8 referenceType, writeUInt16BE fileNumber,
                         writeUInt16BE recordNumber, Some [0], writeUInt8 recordLength]) e1))"

definition writeFC65 :: "nat option \<Rightarrow> nat list \<Rightarrow> callback \<Rightarrow> modbus \<Rightarrow> modbus" where
  "writeFC65 address parameterNumbers nxt e =
     (if \<not> isOpen (port e) then report nxt newPortNotOpenError e
      else if address = None \<or> length parameterNumbers > 16
      then report nxt newBadAddressError e
      else if address = Some 0 then report nxt newBroadcastNotAllowedError e
      else
        (let code = 0x41;
             quantityOfParameters = length parameterNumbers;
             e1 = setTransaction
                    (newTransaction (the address) None code
                       (Some (4 + 2 * quantityOfParameters + 3)) False nxt) e
         in send (frame ([writeUInt8 (the address), writeUInt8 code,
                          writeUInt8 quantityOfParameters]
                         @ map writeUInt16BE parameterNumbers)) e1))"

text \<open>
  \<open>_readFC43\<close>, called for the transaction at \<open>ref\<close> with the closure \<open>next\<close> of
  \<open>_onReceive\<close>.
\<close>

definition readFC43 :: "bytes \<Rightarrow> nat \<Rightarrow> modbus \<Rightarrow> modbus" where
  "readFC43 data ref e =
     (case map (readUInt8 data) [0, 3, 4, 5, 6, 7] of
        [Some address, Some readDeviceIdCode, Some conformityLevel, Some moreFollows,
         Some nextObjectId, Some numOfObjects] \<Rightarrow>
          (case readFC43_loop data numOfObjects 0 8 Map.empty of
             None \<Rightarrow> throw RangeError e
           | Some result \<Rightarrow>
               if moreFollows \<noteq> 0 \<and> numOfObjects \<noteq> 0
               then writeFC43 (Some address) readDeviceIdCode nextObjectId
                      (MergeCb result ref (tnext (heap e ref))) e
               else callNext ref None
                      (Some \<lparr>payload = DeviceId result conformityLevel,
                             res_request = None, res_responses = None\<rparr>) e)
      | _ \<Rightarrow> throw RangeError e)"

definition showLength :: "nat option \<Rightarrow> string" where
  "showLength len = (case len of None \<Rightarrow> ''undefined'' | Some n \<Rightarrow> dec n)"

definition lengthError :: "transaction \<Rightarrow> bytes \<Rightarrow> jserr" where
  "lengthError t data =
     mkError Error
       (''Data length error, expected '' @ showLength (nextLength t) @ '' got '' @ dec (length data))"

definition enronError :: jserr where
  "enronError =
     mkError Error
       (''Enron table definition missing from options. Example: ''
        @ ''{\"enronTables\":{\"booleanRange\":[1001,1999],\"shortRange\":[3001,3999],''
        @ ''\"longRange\":[5001,5999],\"floatRange\":[7001,7999]}}'')"

text \<open>
  The \<open>switch\<close> of \<open>_onReceive\<close>. A decoder that raises leaves with the
  \<open>RangeError\<close>; \<open>_readFC20\<close> is given the transaction's callback itself, not the
  closure \<open>next\<close>; an unlisted code does nothing.
\<close>

definition deliver :: "nat \<Rightarrow> payload option \<Rightarrow> modbus \<Rightarrow> modbus" where
  "deliver ref p e =
     (case p of
        None \<Rightarrow> throw RangeError e
      | Some pl \<Rightarrow>
          callNext ref None (Some \<lparr>payload = pl, res_request = None, res_responses = None\<rparr>) e)"

definition dispatch :: "nat \<Rightarrow> bytes \<Rightarrow> nat \<Rightarrow> modbus \<Rightarrow> modbus" where
  "dispatch code data ref e =
     (let t = heap e ref
      in if code = 1 \<or> code = 2 then deliver ref (readFC2 data) e
         else if code = 3 \<or> code = 4
         then (case enronWide e (nextDataAddress t) of
                 None \<Rightarrow> throw TypeError e
               | Some wide \<Rightarrow>
                   if wide then deliver ref (readFC3or4Enron data) e
                   else deliver ref (readFC3or4 data) e)
         else if code = 5 then deliver ref (readFC5 data) e
         else if code = 6
         then (case enronWide e (nextDataAddress t) of
                 None \<Rightarrow> throw TypeError e
               | Some wide \<Rightarrow>
                   if wide then deliver ref (readFC6Enron data) e
                   else deliver ref (readFC6 data) e)
         else if code = 7 then deliver ref (readFC7 data) e
         else if code = 15 \<or> code = 16 then deliver ref (readFC16 data) e
         else if code = 20
         then (case readFC20 data of
                 None \<Rightarrow> throw RangeError e
               | Some pl \<Rightarrow>
                   if tnext t \<noteq> NoCallback
                   then invoke (tnext t) None
                          (Some \<lparr>payload = pl, res_request = None, res_responses = None\<rparr>) e
                   else e)
         else if code = 43 then readFC43 data ref e
         else if code = 65 then deliver ref (readFC65 data) e
         else e)"

text \<open>
  \<open>_onReceive\<close>, the listener for the frames the transport emits, in three parts:
  \<open>received\<close> stashes the frame and cancels the timeout, \<open>validate\<close> is the chain of
  checks that ends in the \<open>switch\<close>, and \<open>onReceive\<close> is the whole handler.
\<close>

definition received :: "bytes \<Rightarrow> nat \<Rightarrow> modbus \<Rightarrow> modbus" where
  "received data ref e0 =
     (let e1 = (case responses (heap e0 ref) of
                  None \<Rightarrow> e0
                | Some rs \<Rightarrow> update ref (\<lambda>t. t\<lparr>responses := Some (rs @ [data])\<rparr>) e0)
      in update ref (\<lambda>t. t\<lparr>timeoutHandle := None\<rparr>)
           (cancelTimeout (timeoutHandle (heap e1 ref)) e1))"

definition validate :: "bytes \<Rightarrow> nat \<Rightarrow> modbus \<Rightarrow> modbus" where
  "validate data ref e =
     (let t = heap e ref
      in if \<not> lengthUnknown t \<and> length data < 5
         then callNext ref (Some (lengthError t data)) None e
         else
           (case (if length data < 2 then None
                  else readUInt16LE data (length data - 2)) of
              None \<Rightarrow> throw RangeError e
            | Some crcIn \<Rightarrow>
                if crcIn \<noteq> crc16 (slice data 0 (length data - 2))
                then callNext ref (Some (mkError Error ''CRC error'')) None e
                else
                  (case (readUInt8 data 0, readUInt8 data 1) of
                     (Some address, Some code) \<Rightarrow>
                       if length data \<ge> 5 \<and> code = (0x80 OR nextCode t)
                       then (case readUInt8 data 2 of
                               None \<Rightarrow> throw RangeError e
                             | Some errorCode \<Rightarrow>
                                 if tnext t \<noteq> NoCallback
                                 then callNext ref (Some (newModbusException errorCode)) None e
                                 else e)
                       else if enron e
                               \<and> (case enronTables e of
                                     None \<Rightarrow> True
                                   | Some shortRange \<Rightarrow>
                                       length shortRange \<noteq> 2
                                       \<or> shortRange ! 0 \<ge> shortRange ! 1)
                       then callNext ref (Some enronError) None e
                       else if \<not> lengthUnknown t \<and> Some (length data) \<noteq> nextLength t
                       then callNext ref (Some (lengthError t data)) None e
                       else if address \<noteq> nextAddress t
                       then (if tnext t \<noteq> NoCallback
                             then callNext ref
                                    (Some (mkError Error
                                       (''Unexpected data error, expected address ''
                                        @ dec (nextAddress t) @ '' got '' @ dec address)))
                                    None e
                             else e)
                       else if code \<noteq> nextCode t
                       then (if tnext t \<noteq> NoCallback
                             then callNext ref
                                    (Some (mkError Error
                                       (''Unexpected data error, expected code ''
                                        @ dec (nextCode t) @ '' got '' @ dec code)))
                                    None e
                             else e)
                       else dispatch code data ref e
                   | _ \<Rightarrow> throw RangeError e)))"

definition onReceive :: "bytes \<Rightarrow> modbus \<Rightarrow> modbus" where
  "onReceive data e0 =
     (case transactions e0 (transactionIdRead (port e0)) of
        None \<Rightarrow> e0
      | Some ref \<Rightarrow>
          (let e = received data ref e0
           in if timeoutFired (heap e ref) then e else validate data ref e))"

section \<open>Runs of the client\<close>

text \<open>
  What can happen to a client, one after the other: the caller opens it, configures
  it or submits a request (with a function of its own or none), the transport emits a
  frame, a timer elapses.
\<close>

definition userCb :: "nat option \<Rightarrow> callback" where
  "userCb k = (case k of None \<Rightarrow> NoCallback | Some n \<Rightarrow> UserCb n)"

datatype event =
    EvOpen
  | EvSetTimeout "nat option"
  | EvSetDebug bool
  | EvWriteFC1 "nat option" "nat option" nat "nat option"
  | EvWriteFC2 "nat option" "nat option" nat "nat option"
  | EvWriteFC3 "nat option" "nat option" nat "nat option"
  | EvWriteFC4 "nat option" "nat option" nat "nat option"
  | EvWriteFC5 "nat option" "nat option" bool "nat option"
  | EvWriteFC6 "nat option" "nat option" nat "nat option"
  | EvWriteFC7 "nat option" "nat option"
  | EvWriteFC16 "nat option" "nat option" "nat list + bytes" "nat option"
  | EvWriteFC20 "nat option" nat nat nat nat "nat option"
  | EvWriteFC43 "nat option" nat nat "nat option"
  | EvWriteFC65 "nat option" "nat list" "nat option"
  | EvReceive bytes
  | EvTimeout nat

fun step :: "event \<Rightarrow> modbus \<Rightarrow> modbus" where
  "step EvOpen e = modbus_open e"
| "step (EvSetTimeout d) e = setTimeout d e"
| "step (EvSetDebug b) e = setDebugEnabled b e"
| "step (EvWriteFC1 a da n k) e = writeFC1 a da n (userCb k) e"
| "step (EvWriteFC2 a da n k) e = writeFC2 a da n (userCb k) None e"
| "step (EvWriteFC3 a da n k) e = writeFC3 a da n (userCb k) e"
| "step (EvWriteFC4 a da n k) e = writeFC4 a da n (userCb k) None e"
| "step (EvWriteFC5 a da st k) e = writeFC5 a da st (userCb k) e"
| "step (EvWriteFC6 a da v k) e = writeFC6 a da v (userCb k) e"
| "step (EvWriteFC7 a k) e = writeFC7 a (userCb k) e"
| "step (EvWriteFC16 a da vs k) e = writeFC16 a da vs (userCb k) e"
| "step (EvWriteFC20 a f r n t k) e = writeFC20 a f r n t (userCb k) e"
| "step (EvWriteFC43 a c obj k) e = writeFC43 a c obj (userCb k) e"
| "step (EvWriteFC65 a ps k) e = writeFC65 a ps (userCb k) e"
| "step (EvReceive data) e = onReceive data e"
| "step (EvTimeout h) e = fireTimeout h e"

fun run :: "event list \<Rightarrow> modbus \<Rightarrow> modbus" where
  "run [] e = e"
| "run (ev # evs) e = run evs (step ev e)"

section \<open>Inputs of the scenarios\<close>

text \<open>The byte that \<open>_readFC2\<close> expands in round \<open>k\<close> of its loop.\<close>

definition coil_byte :: "bytes \<Rightarrow> nat \<Rightarrow> nat" where
  "coil_byte data k = (case index data (k + 3) of None \<Rightarrow> 0 | Some reg \<Rightarrow> reg)"

text \<open>
  A buffered port after a read-file-record request (unit 17, one record of file 4),
  and a client on a transport that has been opened.
\<close>

definition fc20_port :: rtu_port where
  "fc20_port =
     rtu_write [0x11, 0x14, 0x07, 0x06, 0x00, 0x04, 0x00, 0x01, 0x00, 0x01, 0x99, 0x71]
       new_rtu_port"

definition open_client :: modbus where
  "open_client = modbus_open (new_modbus closed_port)"

text \<open>
  The client after a first read-device-identification request to unit 17, and the
  client that has a timeout of 100 ms and has asked unit 17 for two holding registers.
\<close>

definition fc43_first :: modbus where
  "fc43_first = writeFC43 (Some 17) 1 0 (UserCb 0) open_client"

definition timed_client :: modbus where
  "timed_client = writeFC3 (Some 17) (Some 0x6B) 2 (UserCb 0) (setTimeout (Some 100) open_client)"

section \<open>Timeouts in a run\<close>

text \<open>
  A falsy duration; a call of the caller's function with a timeout error; an error that
  is not a timeout error; and two states of the client between which no timer was
  armed or cancelled, the duration stayed and no timeout error was delivered.
\<close>

definition falsy :: "nat option \<Rightarrow> bool" where
  "falsy duration = (duration = None \<or> duration = Some 0)"

definition timedOut :: "nat \<times> jserr option \<times> result option \<Rightarrow> bool" where
  "timedOut c = (case fst (snd c) of None \<Rightarrow> False
                 | Some err \<Rightarrow> ename err = TransactionTimedOutError)"

definition still :: "modbus \<Rightarrow> modbus \<Rightarrow> bool" where
  "still e e' = (timeout e' = timeout e \<and> timers e' = timers e \<and> timerSeq e' = timerSeq e
                 \<and> filter timedOut (calls e') = filter timedOut (calls e))"

definition plain :: "jserr option \<Rightarrow> bool" where
  "plain err = (case err of None \<Rightarrow> True | Some x \<Rightarrow> ename x \<noteq> TransactionTimedOutError)"

section \<open>Theorems\<close>

lemma crc_bits_numeral:
  "crc_bits (numeral n) crc = crc_bits (pred_numeral n) (crc_shift crc)"
  by (simp add: numeral_eq_Suc)

subsection \<open>The coil decoder\<close>

lemma length_coil_bits: "length (coil_bits n reg) = n"
  by (induction n arbitrary: reg) auto

lemma nth_coil_bits: "j < n \<Longrightarrow> coil_bits n reg ! j = bit reg j"
proof (induction n arbitrary: reg j)
  case 0
  then show ?case by simp
next
  case (Suc n)
  show ?case
  proof (cases j)
    case 0
    then show ?thesis by (simp add: bit_0)
  next
    case (Suc j')
    with Suc.prems have "j' < n" by simp
    with Suc.IH [of j' "reg div 2"] Suc show ?thesis by (simp add: bit_Suc)
  qed
qed

lemma readFC2_loop_eq:
  "readFC2_loop data len i contents =
     contents @ concat (map (\<lambda>k. coil_bits 8 (coil_byte data k)) [i..<len])"
proof (induction data len i contents rule: readFC2_loop.induct)
  case (1 data len i contents)
  show ?case
  proof (cases "i < len")
    case True
    then show ?thesis
      using "1" by (subst readFC2_loop.simps) (simp add: upt_conv_Cons coil_byte_def)
  next
    case False
    then show ?thesis by (subst readFC2_loop.simps) simp
  qed
qed

lemma length_concat_const:
  "(\<And>x. x \<in> set xs \<Longrightarrow> length (f x) = c) \<Longrightarrow> length (concat (map f xs)) = c * length xs"
  by (induction xs) auto

lemma nth_concat_const:
  "(\<And>x. length (f x) = c) \<Longrightarrow> k < length xs \<Longrightarrow> j < c \<Longrightarrow>
     concat (map f xs) ! (c * k + j) = f (xs ! k) ! j"
proof (induction xs arbitrary: k)
  case Nil
  then show ?case by simp
next
  case (Cons x xs)
  show ?case
  proof (cases k)
    case 0
    with Cons.prems show ?thesis by (simp add: nth_append)
  next
    case (Suc k')
    with Cons.prems have k': "k' < length xs" by simp
    have "c * k + j = c + (c * k' + j)" using Suc by simp
    then show ?thesis
      using Cons.IH [OF Cons.prems(1) k' Cons.prems(3)] Cons.prems(1) [of x] Suc
      by (simp add: nth_append)
  qed
qed

lemma length_readFC2_loop0: "length (readFC2_loop data len 0 []) = 8 * len"
  by (simp add: readFC2_loop_eq length_concat_const length_coil_bits)

lemma nth_readFC2_loop0:
  assumes "k < len" "j < 8"
  shows "readFC2_loop data len 0 [] ! (8 * k + j) = bit (coil_byte data k) j"
proof -
  have "concat (map (\<lambda>k. coil_bits 8 (coil_byte data k)) [0..<len]) ! (8 * k + j)
          = coil_bits 8 (coil_byte data ([0..<len] ! k)) ! j"
    using assms by (intro nth_concat_const) (simp_all add: length_coil_bits)
  then show ?thesis
    using assms by (simp add: readFC2_loop_eq nth_coil_bits)
qed

lemma coil_byte_bit:
  "k + 3 < length data \<Longrightarrow> bit (coil_byte data k) j = bit (data ! (k + 3)) j"
  by (simp add: coil_byte_def index_def bit_unsigned_iff)

text \<open>
  Claim C10. For a response whose byte count at offset 2 is \<open>B\<close>, \<open>_readFC2\<close> returns
  exactly \<open>8 * B\<close> booleans; entry \<open>8 * k + j\<close> is bit \<open>j\<close> of the \<open>k\<close>-th data byte,
  least significant bit first. When \<open>B\<close> is the byte count of a request for a quantity
  that is not a multiple of 8, the sequence is strictly longer than the quantity: the
  padding bits of the last byte are its trailing entries.
\<close>

theorem readFC2_returns_8B_booleans:
  assumes "readUInt8 data 2 = Some B"
  shows "\<exists>contents buffer. readFC2 data = Some (ReadCoil contents buffer)
           \<and> length contents = 8 * B
           \<and> (\<forall>k<B. \<forall>j<8. k + 3 < length data \<longrightarrow>
                  contents ! (8 * k + j) = bit (data ! (k + 3)) j)
           \<and> (\<forall>quantity. B = (quantity + 7) div 8 \<and> quantity mod 8 \<noteq> 0 \<longrightarrow>
                  quantity < length contents)"
proof -
  have "\<forall>quantity. B = (quantity + 7) div 8 \<and> quantity mod 8 \<noteq> 0 \<longrightarrow> quantity < 8 * B"
    by presburger
  then show ?thesis
    using assms
    by (simp add: readFC2_def length_readFC2_loop0 nth_readFC2_loop0 coil_byte_bit)
qed

theorem readFC2_returns_8B_booleans_witness:
  "readUInt8 [0x11, 0x01, 0x01, 0x05, 0x95, 0x4B] 2 = Some 1
   \<and> (\<exists>contents buffer.
         readFC2 [0x11, 0x01, 0x01, 0x05, 0x95, 0x4B] = Some (ReadCoil contents buffer)
         \<and> length contents = 8 * 1
         \<and> contents ! (8 * 0 + 2) = bit ([0x11, 0x01, 0x01, 0x05, 0x95, 0x4B :: byte] ! (0 + 3)) 2
         \<and> (3::nat) < length contents)"
proof -
  have h: "readUInt8 [0x11, 0x01, 0x01, 0x05, 0x95, 0x4B] 2 = Some 1"
    by (simp add: readUInt8_def)
  from readFC2_returns_8B_booleans [OF h]
  obtain contents buffer where
    c: "readFC2 [0x11, 0x01, 0x01, 0x05, 0x95, 0x4B] = Some (ReadCoil contents buffer)"
      "length contents = 8 * 1"
      "\<forall>k<1. \<forall>j<8. k + 3 < length [0x11, 0x01, 0x01, 0x05, 0x95, 0x4B :: byte] \<longrightarrow>
          contents ! (8 * k + j) = bit ([0x11, 0x01, 0x01, 0x05, 0x95, 0x4B :: byte] ! (k + 3)) j"
      "\<forall>quantity. (1::nat) = (quantity + 7) div 8 \<and> quantity mod 8 \<noteq> 0 \<longrightarrow>
          quantity < length contents"
    by blast
  from c(3) have "contents ! (8 * 0 + 2) = bit ([0x11, 0x01, 0x01, 0x05, 0x95, 0x4B :: byte] ! (0 + 3)) 2"
    by simp
  moreover from c(4) have "(3::nat) < length contents"
    by simp
  ultimately show ?thesis
    using h c(1) c(2) by blast
qed

subsection \<open>The buffered RTU port\<close>

lemma fc20_port_eq:
  "fc20_port =
     \<lparr>rtu_buffer = [], rtu_id = 17, rtu_cmd = 20, rtu_length = LengthUnknown,
      rtu_client = [[0x11, 0x14, 0x07, 0x06, 0x00, 0x04, 0x00, 0x01, 0x00, 0x01, 0x99, 0x71]],
      rtu_emitted = []\<rparr>"
  by (simp add: fc20_port_def rtu_write_def new_rtu_port_def)

lemma scan_step_FC20:
  assumes "rtu_cmd p = 20"
    and "index (rtu_buffer p) i = Some (rtu_id p)"
    and "index (rtu_buffer p) (i + 1) = Some 20"
    and "index (rtu_buffer p) (i + 2) = Some responseDataLength"
    and "3 + i < bufferLength"
  shows "scan_step p bufferLength i =
           (if responseDataLength + 5 \<le> bufferLength then Emit i (responseDataLength + 5)
            else Break)"
  using assms by (simp add: scan_step_def add.commute)

text \<open>
  Claim C4, as stated, fails: after a read-file-record request the port emits the
  nine-byte response below as soon as it is buffered, although its third byte is 4
  and \<open>5 + 4 + 2\<close> bytes are not there.
\<close>

theorem FC20_frame_length_counterexample:
  "rtu_emitted (onData [0x11, 0x14, 0x04, 0x03, 0x06, 0x0D, 0xFE, 0x8D, 0x80] fc20_port)
     = [[0x11, 0x14, 0x04, 0x03, 0x06, 0x0D, 0xFE, 0x8D, 0x80]]
   \<and> \<not> (5 + unat ([0x11, 0x14, 0x04, 0x03, 0x06, 0x0D, 0xFE, 0x8D, 0x80 :: byte] ! 2) + 2
          \<le> length [0x11, 0x14, 0x04, 0x03, 0x06, 0x0D, 0xFE, 0x8D, 0x80 :: byte])"
  by (simp add: fc20_port_eq onData_def scan.simps scan_step_def index_def emitData_def
      slice_def)

text \<open>
  Claim C4, amended. When the remembered function code is 20 and the scan finds the
  header at offset \<open>i\<close>, with more than \<open>3 + i\<close> bytes buffered, the frame length is
  \<open>1 + 1 + 1 + buffer[i + 2] + 2\<close>, that is \<open>buffer[i + 2]\<close> plus 5, and the frame is
  emitted (from offset \<open>i\<close>, ending the scan) exactly when the buffer holds at least
  that many bytes; otherwise the scan stops and the port waits.
\<close>

theorem FC20_frame_length:
  assumes "rtu_cmd p = 20"
    and "index (rtu_buffer p) i = Some (rtu_id p)"
    and "index (rtu_buffer p) (i + 1) = Some 20"
    and "index (rtu_buffer p) (i + 2) = Some responseDataLength"
    and "3 + i < bufferLength"
    and "i \<le> maxOffset"
  shows "scan_step p bufferLength i =
           (if responseDataLength + 5 \<le> bufferLength then Emit i (responseDataLength + 5)
            else Break)
         \<and> scan p bufferLength maxOffset i =
           (if responseDataLength + 5 \<le> bufferLength then emitData i (responseDataLength + 5) p
            else p)"
  using assms scan_step_FC20 [OF assms(1-5)]
  by (subst scan.simps) simp

theorem FC20_frame_length_witness:
  "rtu_cmd (fc20_port\<lparr>rtu_buffer := [0x11, 0x14, 0x04, 0x03, 0x06, 0x0D, 0xFE, 0x8D, 0x80]\<rparr>) = 20
   \<and> index (rtu_buffer (fc20_port\<lparr>rtu_buffer := [0x11, 0x14, 0x04, 0x03, 0x06, 0x0D, 0xFE, 0x8D, 0x80]\<rparr>)) 0
       = Some (rtu_id (fc20_port\<lparr>rtu_buffer := [0x11, 0x14, 0x04, 0x03, 0x06, 0x0D, 0xFE, 0x8D, 0x80]\<rparr>))
   \<and> index (rtu_buffer (fc20_port\<lparr>rtu_buffer := [0x11, 0x14, 0x04, 0x03, 0x06, 0x0D, 0xFE, 0x8D, 0x80]\<rparr>)) (0 + 1)
       = Some 20
   \<and> index (rtu_buffer (fc20_port\<lparr>rtu_buffer := [0x11, 0x14, 0x04, 0x03, 0x06, 0x0D, 0xFE, 0x8D, 0x80]\<rparr>)) (0 + 2)
       = Some 4
   \<and> 3 + 0 < (9::nat) \<and> (0::nat) \<le> 4
   \<and> scan_step (fc20_port\<lparr>rtu_buffer := [0x11, 0x14, 0x04, 0x03, 0x06, 0x0D, 0xFE, 0x8D, 0x80]\<rparr>) 9 0
       = Emit 0 9
   \<and> scan (fc20_port\<lparr>rtu_buffer := [0x11, 0x14, 0x04, 0x03, 0x06, 0x0D, 0xFE, 0x8D, 0x80]\<rparr>) 9 4 0
       = emitData 0 9 (fc20_port\<lparr>rtu_buffer := [0x11, 0x14, 0x04, 0x03, 0x06, 0x0D, 0xFE, 0x8D, 0x80]\<rparr>)"
  using FC20_frame_length
    [of "fc20_port\<lparr>rtu_buffer := [0x11, 0x14, 0x04, 0x03, 0x06, 0x0D, 0xFE, 0x8D, 0x80]\<rparr>"
        0 4 9 4]
  by (simp add: fc20_port_eq index_def)

text \<open>
  Past its first guard \<open>onData\<close> keeps the buffer within the cap: with an expected
  length that is unknown or at least 6, at most 256 bytes are retained.
\<close>

lemma scan_buffer_le:
  "length (rtu_buffer (scan p bufferLength maxOffset i)) \<le> length (rtu_buffer p)"
proof (induction p bufferLength maxOffset i rule: scan.induct)
  case (1 p bufferLength maxOffset i)
  show ?case
  proof (cases "i \<le> maxOffset")
    case True
    show ?thesis
    proof (cases "scan_step p bufferLength i")
      case (Emit start len)
      with True show ?thesis
        by (subst scan.simps) (simp add: emitData_def)
    next
      case Return
      with True show ?thesis by (subst scan.simps) simp
    next
      case Break
      with True show ?thesis by (subst scan.simps) simp
    next
      case Continue
      with True "1" show ?thesis by (subst scan.simps) simp
    qed
  next
    case False
    then show ?thesis by (subst scan.simps) simp
  qed
qed

lemma onData_bounded_past_guard:
  assumes "rtu_length p = LengthUnknown \<or> (\<exists>n. rtu_length p = Known n \<and> MIN_DATA_LENGTH \<le> n)"
  shows "length (rtu_buffer (onData data p)) \<le> MAX_BUFFER_LENGTH"
proof -
  let ?p = "p\<lparr>rtu_buffer := rtu_buffer p @ data\<rparr>"
  let ?n = "length (rtu_buffer p @ data)"
  have g: "\<not> (rtu_length ?p \<noteq> LengthUnknown
               \<and> (case rtu_length ?p of Known n \<Rightarrow> n < MIN_DATA_LENGTH | LengthUnknown \<Rightarrow> False))"
    using assms by auto
  show ?thesis
  proof (cases "?n < 5")
    case True
    then show ?thesis using g by (simp add: onData_def Let_def)
  next
    case False
    show ?thesis
    proof (cases "?n > 256")
      case True
      have "length (rtu_buffer (scan (?p\<lparr>rtu_buffer := drop (?n - 256) (rtu_buffer ?p)\<rparr>)
                 256 (256 - 5) 0)) \<le> 256"
        using scan_buffer_le [of "?p\<lparr>rtu_buffer := drop (?n - 256) (rtu_buffer ?p)\<rparr>" 256 "256 - 5" 0]
          True by simp
      with True False g show ?thesis
        by (simp add: onData_def Let_def)
    next
      case n: False
      have "length (rtu_buffer (scan ?p ?n (?n - 5) 0)) \<le> 256"
        using scan_buffer_le [of ?p ?n "?n - 5" 0] n by simp
      with n False g show ?thesis
        by (simp add: onData_def Let_def)
    qed
  qed
qed

text \<open>
  Claim C5. The cap of 256 bytes is applied after the early return for an expected
  length below 6, so a port that has not yet written a request (expected length 0)
  keeps every byte of a 257-byte chunk: the bound of the claim does not hold there.
\<close>

theorem onData_before_write_keeps_257_bytes:
  "length (rtu_buffer (onData (replicate 257 0) new_rtu_port)) = 257"
  by (simp add: onData_def new_rtu_port_def)



subsection \<open>The CRC fits sixteen bits\<close>

lemma xor_nat_less: "x < 2 ^ n \<Longrightarrow> y < 2 ^ n \<Longrightarrow> x XOR y < (2::nat) ^ n"
proof -
  assume a: "x < 2 ^ n" "y < 2 ^ n"
  then have "take_bit n x = x" "take_bit n y = y"
    by (simp_all add: take_bit_nat_eq_self_iff)
  then have "take_bit n (x XOR y) = x XOR y"
    by (simp add: take_bit_xor)
  then show ?thesis
    by (simp only: take_bit_nat_eq_self_iff)
qed

lemma crc_shift_less: "crc < 65536 \<Longrightarrow> crc_shift crc < 65536"
proof -
  assume a: "crc < 65536"
  then have d: "crc div 2 < 2 ^ 16" by simp
  have "crc div 2 XOR 0xA001 < 2 ^ 16"
    using d by (rule xor_nat_less) simp
  with d show ?thesis
    by (simp add: crc_shift_def)
qed

lemma crc_bits_less: "crc < 65536 \<Longrightarrow> crc_bits n crc < 65536"
  by (induction n arbitrary: crc) (simp_all add: crc_shift_less)

lemma crc_byte_less: "crc < 65536 \<Longrightarrow> crc_byte crc b < 65536"
proof -
  assume a: "crc < 65536"
  have "unat b < 2 ^ 8"
    using unsigned_less [of b, where ?'a = nat] by simp
  then have "unat b < 2 ^ 16"
    by simp
  with a have "crc XOR unat b < 2 ^ 16"
    by (intro xor_nat_less) simp_all
  then show ?thesis
    by (simp add: crc_byte_def crc_bits_less)
qed

lemma foldl_crc_byte_less: "crc < 65536 \<Longrightarrow> foldl crc_byte crc bs < 65536"
  by (induction bs arbitrary: crc) (simp_all add: crc_byte_less)

lemma crc16_less: "crc16 bs < 65536"
  by (simp add: crc16_def foldl_crc_byte_less)

lemma frame_Some:
  "fields fs = Some body \<Longrightarrow>
   frame fs = Some (body @ [word_of_nat (crc16 body mod 256), word_of_nat (crc16 body div 256)])"
  using crc16_less [of body] by (simp add: frame_def writeUInt16LE_def)

subsection \<open>What a callback changes\<close>

lemma invoke_frame:
  "port (invoke cb err res e) = port e
   \<and> heap (invoke cb err res e) = heap e
   \<and> heapSize (invoke cb err res e) = heapSize e
   \<and> transactions (invoke cb err res e) = transactions e
   \<and> timers (invoke cb err res e) = timers e
   \<and> timerSeq (invoke cb err res e) = timerSeq e
   \<and> timeout (invoke cb err res e) = timeout e
   \<and> debugEnabled (invoke cb err res e) = debugEnabled e
   \<and> enron (invoke cb err res e) = enron e
   \<and> enronTables (invoke cb err res e) = enronTables e"
proof (induction cb arbitrary: err res)
  case NoCallback
  then show ?case by (simp add: throw_def)
next
  case (UserCb k)
  then show ?case by simp
next
  case (MergeCb result ref nxt)
  then show ?case
    by (auto simp: throw_def split: option.splits payload.splits prod.splits)
qed

lemmas invoke_port [simp] = invoke_frame [THEN conjunct1]

lemma written_writeBufferToPort:
  "written (port (writeBufferToPort b tid e)) = written (port e) @ [b]"
  by (simp add: writeBufferToPort_def Let_def update_def startTimeout_def
      split: option.splits prod.splits)

text \<open>
  Claim C8. For a buffer shorter than 6 bytes, \<open>write\<close> of the buffered port returns
  the port as it was: nothing is passed to the serial client and the remembered unit
  id, function code and expected length stay. The frame that \<open>writeFC7\<close> hands to the
  transport has 4 bytes, so through this port it is never transmitted.
\<close>

theorem short_frames_never_sent:
  "(length data < MIN_DATA_LENGTH \<longrightarrow>
      rtu_write data p = p
      \<and> rtu_client (rtu_write data p) = rtu_client p
      \<and> rtu_id (rtu_write data p) = rtu_id p
      \<and> rtu_cmd (rtu_write data p) = rtu_cmd p
      \<and> rtu_length (rtu_write data p) = rtu_length p)
   \<and> (isOpen (port e) \<and> 0 < address \<and> address \<le> 255 \<longrightarrow>
        (\<exists>buf. written (port (writeFC7 (Some address) nxt e)) = written (port e) @ [buf]
           \<and> length buf = 4 \<and> rtu_write buf p = p
           \<and> rtu_client (rtu_write buf p) = rtu_client p))"
proof -
  have "fields [writeUInt8 address, writeUInt8 7] = Some [word_of_nat address, 7]"
    if "address \<le> 255"
    using that by (simp add: writeUInt8_def)
  from frame_Some [OF this] show ?thesis
    by (auto simp: rtu_write_def writeFC7_def Let_def send_def setTransaction_def
        written_writeBufferToPort)
qed

theorem short_frames_never_sent_witness:
  "length [0x11, 0x07, 0x4C, 0x22 :: byte] < MIN_DATA_LENGTH
   \<and> rtu_write [0x11, 0x07, 0x4C, 0x22] new_rtu_port = new_rtu_port
   \<and> rtu_client (rtu_write [0x11, 0x07, 0x4C, 0x22] new_rtu_port) = []
   \<and> isOpen (port open_client) \<and> (0::nat) < 17 \<and> (17::nat) \<le> 255
   \<and> (\<exists>buf. written (port (writeFC7 (Some 17) (UserCb 0) open_client)) = [buf]
         \<and> length buf = 4 \<and> rtu_write buf new_rtu_port = new_rtu_port
         \<and> rtu_client (rtu_write buf new_rtu_port) = [])"
  using short_frames_never_sent
    [of "[0x11, 0x07, 0x4C, 0x22]" new_rtu_port open_client 17 "UserCb 0"]
  by (simp add: open_client_def modbus_open_def new_modbus_def closed_port_def
      new_rtu_port_def)



subsection \<open>Evaluating the scenarios\<close>

lemmas crc_eval = crc16_def crc_byte_def crc_shift_def crc_bits_numeral

lemmas submit_defs = writeFC1_def writeFC2_def writeFC3_def writeFC4_def writeFC5_def
  writeFC7_def writeFC43_def report_def enronWide_def setTransaction_def newTransaction_def
  send_def writeBufferToPort_def startTimeout_def update_def Let_def frame_def
  writeUInt8_def writeUInt16BE_def writeUInt16LE_def

lemmas receive_defs = onReceive_def received_def validate_def cancelTimeout_def callNext_def attach_def dispatch_def
  deliver_def readUInt16LE_def readUInt8_def slice_def update_def Let_def

lemmas client_defs = open_client_def modbus_open_def new_modbus_def closed_port_def

lemma crc_read_holding_request: "crc16 [0x11, 0x03, 0x00, 0x6B, 0x00, 0x02] = 0x47B7"
  by (simp add: crc_eval)

lemma crc_read_holding_response: "crc16 [0x11, 0x03, 0x04, 0xAE, 0x41, 0x56, 0x52] = 0x5325"
  by (simp add: crc_eval)



lemma crc_write_coil_broadcast: "crc16 [0x00, 0x05, 0x00, 0xAC, 0xFF, 0x00] = 0xCA4D"
  by (simp add: crc_eval)

lemma readFC3or4_scenario:
  "readFC3or4 [0x11, 0x03, 0x04, 0xAE, 0x41, 0x56, 0x52, c1, c2]
     = Some (ReadRegister [0xAE41, 0x5652] [0xAE, 0x41, 0x56, 0x52])"
  by (simp add: readFC3or4_def readUInt8_def readFC3or4_loop.simps readUInt16BE_def slice_def)

text \<open>
  Claim C2, as stated, fails: with the CRC of section 4.1 the request ends in
  \<open>B7 47\<close>, not \<open>76 87\<close>, and the response \<open>11 03 04 AE 41 56 52 49 AD\<close> does not
  carry the CRC of its first seven bytes, so it is answered with a CRC error.
\<close>

theorem read_holding_scenario_counterexample:
  "written (port (writeFC3 (Some 17) (Some 0x6B) 2 (UserCb 0) open_client))
     \<noteq> [[0x11, 0x03, 0x00, 0x6B, 0x00, 0x02, 0x76, 0x87]]
   \<and> calls (onReceive [0x11, 0x03, 0x04, 0xAE, 0x41, 0x56, 0x52, 0x49, 0xAD]
              (writeFC3 (Some 17) (Some 0x6B) 2 (UserCb 0) open_client))
     = [(0, Some \<lparr>ename = Error, message = ''CRC error'', modbusCode = None,
                    modbusRequest = None, modbusResponses = None\<rparr>, None)]"
  by (simp add: submit_defs client_defs receive_defs crc_read_holding_request
      crc_read_holding_response readFC3or4_scenario mkError_def)

text \<open>
  Claim C2, amended. The request for unit 17, function code 3, data address 0x006B,
  quantity 2 is the frame \<open>11 03 00 6B 00 02 B7 47\<close>, and the response
  \<open>11 03 04 AE 41 56 52 25 53\<close> for that transaction yields the registers
  \<open>[0xAE41, 0x5652]\<close>.
\<close>

theorem read_holding_scenario:
  "written (port (writeFC3 (Some 17) (Some 0x6B) 2 (UserCb 0) open_client))
     = [[0x11, 0x03, 0x00, 0x6B, 0x00, 0x02, 0xB7, 0x47]]
   \<and> calls (onReceive [0x11, 0x03, 0x04, 0xAE, 0x41, 0x56, 0x52, 0x25, 0x53]
              (writeFC3 (Some 17) (Some 0x6B) 2 (UserCb 0) open_client))
     = [(0, None, Some \<lparr>payload = ReadRegister [0xAE41, 0x5652] [0xAE, 0x41, 0x56, 0x52],
                          res_request = None, res_responses = None\<rparr>)]"
  by (simp add: submit_defs client_defs receive_defs crc_read_holding_request
      crc_read_holding_response readFC3or4_scenario)



subsection \<open>Exception responses\<close>


lemma received_frame:
  "port (received data ref e) = port e"
  "transactions (received data ref e) = transactions e"
  "calls (received data ref e) = calls e"
  "crashes (received data ref e) = crashes e"
  "heapSize (received data ref e) = heapSize e"
  "timeout (received data ref e) = timeout e"
  "timerSeq (received data ref e) = timerSeq e"
  "debugEnabled (received data ref e) = debugEnabled e"
  "enron (received data ref e) = enron e"
  "enronTables (received data ref e) = enronTables e"
  by (simp_all add: received_def update_def cancelTimeout_def Let_def split: option.splits)

lemma received_heap:
  "heap (received data ref e) ref =
     (heap e ref)\<lparr>timeoutHandle := None,
                   responses := map_option (\<lambda>rs. rs @ [data]) (responses (heap e ref))\<rparr>"
  "ref' \<noteq> ref \<Longrightarrow> heap (received data ref e) ref' = heap e ref'"
  by (simp_all add: received_def update_def cancelTimeout_def Let_def split: option.splits)

lemma received_timers:
  "timers (received data ref e) =
     (case timeoutHandle (heap e ref) of None \<Rightarrow> timers e | Some h \<Rightarrow> (timers e)(h := None))"
  by (simp add: received_def update_def cancelTimeout_def Let_def split: option.splits)




subsection \<open>Read device identification\<close>

lemma crc_fc43_request_0: "crc16 [0x11, 0x2B, 0x0E, 0x01, 0x00] = 0xB4B1"
  by (simp add: crc_eval)

lemma crc_fc43_request_2: "crc16 [0x11, 0x2B, 0x0E, 0x01, 0x02] = 0x7530"
  by (simp add: crc_eval)

lemma crc_fc43_response_1:
  "crc16 [0x11, 0x2B, 0x0E, 0x01, 0x01, 0xFF, 0x02, 0x02,
          0x00, 0x03, 0x46, 0x6F, 0x6F, 0x01, 0x03, 0x42, 0x61, 0x72] = 0x979B"
  by (simp add: crc_eval)

lemma crc_fc43_response_2:
  "crc16 [0x11, 0x2B, 0x0E, 0x01, 0x01, 0x00, 0x00, 0x01, 0x02, 0x03, 0x42, 0x61, 0x7A] = 0x1143"
  by (simp add: crc_eval)

lemma readFC43_loop_first:
  "readFC43_loop [0x11, 0x2B, 0x0E, 0x01, 0x01, 0xFF, 0x02, 0x02,
          0x00, 0x03, 0x46, 0x6F, 0x6F, 0x01, 0x03, 0x42, 0x61, 0x72, 0x9B, 0x97] 2 0 8 Map.empty
    = Some [0 \<mapsto> ''Foo'', 1 \<mapsto> ''Bar'']"
  by (simp add: readFC43_loop.simps readUInt8_def toStringAscii_def slice_def ascii_char_def char_of_def bit_Suc_0_iff)

lemma readFC43_loop_second:
  "readFC43_loop [0x11, 0x2B, 0x0E, 0x01, 0x01, 0x00, 0x00, 0x01, 0x02, 0x03, 0x42, 0x61, 0x7A, 0x43, 0x11] (Suc 0) 0 8 Map.empty
    = Some [2 \<mapsto> ''Baz'']"
  by (simp add: readFC43_loop.simps readUInt8_def toStringAscii_def slice_def ascii_char_def char_of_def bit_Suc_0_iff)

lemma fc43_first_eq:
  "fc43_first = open_client
     \<lparr>port := (port open_client)\<lparr>written := [[0x11, 0x2B, 0x0E, 0x01, 0x00, 0xB1, 0xB4]]\<rparr>,
      transactions := [Some 1 \<mapsto> 0],
      heap := (heap open_client)(0 := newTransaction 17 None 43 None True (UserCb 0)),
      heapSize := 1\<rparr>"
  by (simp add: fc43_first_def submit_defs client_defs crc_fc43_request_0)


lemma fc43_second:
  "onReceive [0x11, 0x2B, 0x0E, 0x01, 0x01, 0xFF, 0x02, 0x02,
          0x00, 0x03, 0x46, 0x6F, 0x6F, 0x01, 0x03, 0x42, 0x61, 0x72, 0x9B, 0x97] fc43_first
   = open_client
     \<lparr>port := (port open_client)\<lparr>written := [[0x11, 0x2B, 0x0E, 0x01, 0x00, 0xB1, 0xB4],
                                                  [0x11, 0x2B, 0x0E, 0x01, 0x02, 0x30, 0x75]]\<rparr>,
      transactions := [Some 1 \<mapsto> 1],
      heap := (heap open_client)
                (0 := newTransaction 17 None 43 None True (UserCb 0),
                 1 := newTransaction 17 None 43 None True
                        (MergeCb [0 \<mapsto> ''Foo'', 1 \<mapsto> ''Bar''] 0 (UserCb 0))),
      heapSize := 2\<rparr>"
  by (simp add: fc43_first_eq receive_defs readFC43_def readFC43_loop_first crc_fc43_response_1
      submit_defs crc_fc43_request_2 client_defs)


lemma map_Foo_Bar_Baz:
  "[(2::nat) \<mapsto> ''Baz''] ++ [0 \<mapsto> ''Foo'', 1 \<mapsto> ''Bar'']
     = [0 \<mapsto> ''Foo'', 1 \<mapsto> ''Bar'', 2 \<mapsto> (''Baz'' :: string)]"
  by (rule ext) simp

lemma fc43_scenario:
  "calls (onReceive [0x11, 0x2B, 0x0E, 0x01, 0x01, 0x00, 0x00, 0x01,
                     0x02, 0x03, 0x42, 0x61, 0x7A, 0x43, 0x11]
           (onReceive [0x11, 0x2B, 0x0E, 0x01, 0x01, 0xFF, 0x02, 0x02,
                       0x00, 0x03, 0x46, 0x6F, 0x6F, 0x01, 0x03, 0x42, 0x61, 0x72, 0x9B, 0x97]
              (writeFC43 (Some 17) 1 0 (UserCb 0) open_client)))
     = [(0, None,
         Some \<lparr>payload = DeviceId [0 \<mapsto> ''Foo'', 1 \<mapsto> ''Bar'', 2 \<mapsto> ''Baz''] 1,
               res_request = None, res_responses = None\<rparr>)]"
  unfolding fc43_first_def [symmetric] fc43_second
  by (simp add: receive_defs readFC43_def readFC43_loop_second crc_fc43_response_2 newTransaction_def
      client_defs)
    (rule ext, simp)

lemma writeUInt8_unat: "writeUInt8 (unat (b :: byte)) = Some [b]"
proof -
  have "unat b < 2 ^ 8"
    using unsigned_less [of b, where ?'a = nat] by simp
  then show ?thesis
    by (simp add: writeUInt8_def)
qed

lemma writeFC43_sends:
  assumes "isOpen (port e)" and "address \<noteq> 0"
    and "frame [writeUInt8 address, writeUInt8 0x2B, writeUInt8 0x0E, writeUInt8 deviceIdCode,
                writeUInt8 objectId] = Some buf"
  shows "writeFC43 (Some address) deviceIdCode objectId nxt e =
           e\<lparr>port := (port e)\<lparr>written := written (port e) @ [buf]\<rparr>,
             transactions := (transactions e)(transactionIdWrite (port e) \<mapsto> heapSize e),
             heap := (heap e)
               (heapSize e := (newTransaction address None 43 None True nxt)
                  \<lparr>request := (if debugEnabled e then Some buf else None),
                    responses := (if debugEnabled e then Some [] else None)\<rparr>),
             heapSize := heapSize e + 1\<rparr>"
  using assms
  by (simp add: writeFC43_def Let_def setTransaction_def send_def writeBufferToPort_def
      newTransaction_def update_def)


lemma fields_bytes:
  "fields [writeUInt8 (unat a), writeUInt8 0x2B, writeUInt8 0x0E, writeUInt8 (unat c),
           writeUInt8 (unat d)] = Some [a, 0x2B, 0x0E, c, d]"
  by (simp add: writeUInt8_unat) (simp add: writeUInt8_def)

lemma readFC43_header:
  "8 \<le> length data \<Longrightarrow>
   map (readUInt8 data) [0, 3, 4, 5, 6, 7] =
     [Some (unat (data ! 0)), Some (unat (data ! 3)), Some (unat (data ! 4)),
      Some (unat (data ! 5)), Some (unat (data ! 6)), Some (unat (data ! 7))]"
  by (auto simp: readUInt8_def)

lemma readFC43_eq:
  assumes "8 \<le> length data"
    and "readFC43_loop data (unat (data ! 7)) 0 8 Map.empty = Some result"
  shows "readFC43 data ref e =
           (if data ! 5 \<noteq> 0 \<and> data ! 7 \<noteq> 0
            then writeFC43 (Some (unat (data ! 0))) (unat (data ! 3)) (unat (data ! 6))
                   (MergeCb result ref (tnext (heap e ref))) e
            else callNext ref None
                   (Some \<lparr>payload = DeviceId result (unat (data ! 4)),
                          res_request = None, res_responses = None\<rparr>) e)"
  unfolding readFC43_def readFC43_header [OF assms(1)]
  using assms(2) by (simp add: unsigned_eq_0_iff)

lemma callNext_port: "port (callNext ref err res e) = port e"
  by (simp add: callNext_def split: prod.splits)

lemma invoke_MergeCb_UserCb:
  "\<exists>res. calls (invoke (MergeCb acc ref (UserCb k)) None
                   (Some \<lparr>payload = DeviceId objects c, res_request = rq, res_responses = rs\<rparr>) e)
            = calls e @ [(k, None, Some res)]
         \<and> payload res = DeviceId (objects ++ acc) c"
  by (simp add: attach_def)

lemma FC43_continuation_general:
  assumes "isOpen (port e)" and "8 \<le> length data" and "data ! 0 \<noteq> 0"
    and "readFC43_loop data (unat (data ! 7)) 0 8 Map.empty = Some result"
  shows "if data ! 5 \<noteq> 0 \<and> data ! 7 \<noteq> 0
         then (\<exists>crc. written (port (readFC43 data ref e))
                       = written (port e) @ [[data ! 0, 0x2B, 0x0E, data ! 3, data ! 6] @ crc]
                     \<and> length crc = 2)
              \<and> calls (readFC43 data ref e) = calls e
              \<and> (\<exists>ref'. transactions (readFC43 data ref e) (transactionIdWrite (port e))
                            = Some ref'
                     \<and> nextAddress (heap (readFC43 data ref e) ref') = unat (data ! 0)
                     \<and> nextCode (heap (readFC43 data ref e) ref') = 43
                     \<and> tnext (heap (readFC43 data ref e) ref')
                         = MergeCb result ref (tnext (heap e ref)))
         else written (port (readFC43 data ref e)) = written (port e)
              \<and> readFC43 data ref e
                  = callNext ref None
                      (Some \<lparr>payload = DeviceId result (unat (data ! 4)),
                             res_request = None, res_responses = None\<rparr>) e"
proof (cases "data ! 5 \<noteq> 0 \<and> data ! 7 \<noteq> 0")
  case True
  let ?body = "[data ! 0, 0x2B, 0x0E, data ! 3, data ! 6]"
  let ?buf = "?body @ [word_of_nat (crc16 ?body mod 256), word_of_nat (crc16 ?body div 256)]"
  have f: "frame [writeUInt8 (unat (data ! 0)), writeUInt8 0x2B, writeUInt8 0x0E,
                  writeUInt8 (unat (data ! 3)), writeUInt8 (unat (data ! 6))] = Some ?buf"
    by (rule frame_Some) (rule fields_bytes)
  have a: "unat (data ! 0) \<noteq> 0"
    using assms(3) by (simp add: unsigned_eq_0_iff)
  show ?thesis
    using True
    by (simp add: readFC43_eq [OF assms(2) assms(4)]
        writeFC43_sends [OF assms(1) a f] newTransaction_def)
next
  case False
  then have "readFC43 data ref e
               = callNext ref None
                   (Some \<lparr>payload = DeviceId result (unat (data ! 4)),
                          res_request = None, res_responses = None\<rparr>) e"
    by (auto simp: readFC43_eq [OF assms(2) assms(4)])
  with False show ?thesis
    by (simp only: callNext_port if_False simp_thms)
qed



lemma fc43_scenario_written:
  "written (port (onReceive [0x11, 0x2B, 0x0E, 0x01, 0x01, 0x00, 0x00, 0x01,
                     0x02, 0x03, 0x42, 0x61, 0x7A, 0x43, 0x11]
           (onReceive [0x11, 0x2B, 0x0E, 0x01, 0x01, 0xFF, 0x02, 0x02,
                       0x00, 0x03, 0x46, 0x6F, 0x6F, 0x01, 0x03, 0x42, 0x61, 0x72, 0x9B, 0x97]
              (writeFC43 (Some 17) 1 0 (UserCb 0) open_client))))
     = [[0x11, 0x2B, 0x0E, 0x01, 0x00, 0xB1, 0xB4], [0x11, 0x2B, 0x0E, 0x01, 0x02, 0x30, 0x75]]"
  unfolding fc43_first_def [symmetric] fc43_second
  by (simp add: receive_defs readFC43_def readFC43_loop_second crc_fc43_response_2 newTransaction_def
      client_defs)

text \<open>
  Claim C7. When the port is open and the response (from a unit other than 0) parses,
  \<open>_readFC43\<close> writes a follow-up FC43 request to the transport exactly when
  \<open>moreFollows\<close> and the number of objects are both nonzero: the request goes to the
  unit of the response, with the response's device id code and its \<open>nextObjectId\<close>,
  no callback is called, and the new transaction's callback holds the objects read.
  Otherwise nothing is written and the objects go to \<open>next\<close>; a callback built in an
  earlier round passes them on merged with the objects it holds. In the two-round
  scenario the second request asks for object 2 and the caller receives
  \<open>{0: "Foo", 1: "Bar", 2: "Baz"}\<close>.
\<close>

theorem FC43_continuation:
  "(isOpen (port e) \<and> 8 \<le> length data \<and> data ! 0 \<noteq> 0
      \<and> readFC43_loop data (unat (data ! 7)) 0 8 Map.empty = Some result \<longrightarrow>
      (if data ! 5 \<noteq> 0 \<and> data ! 7 \<noteq> 0
       then (\<exists>crc. written (port (readFC43 data ref e))
                     = written (port e) @ [[data ! 0, 0x2B, 0x0E, data ! 3, data ! 6] @ crc]
                   \<and> length crc = 2)
            \<and> calls (readFC43 data ref e) = calls e
            \<and> (\<exists>ref'. transactions (readFC43 data ref e) (transactionIdWrite (port e))
                          = Some ref'
                   \<and> nextAddress (heap (readFC43 data ref e) ref') = unat (data ! 0)
                   \<and> nextCode (heap (readFC43 data ref e) ref') = 43
                   \<and> tnext (heap (readFC43 data ref e) ref')
                       = MergeCb result ref (tnext (heap e ref)))
       else written (port (readFC43 data ref e)) = written (port e)
            \<and> readFC43 data ref e
                = callNext ref None
                    (Some \<lparr>payload = DeviceId result (unat (data ! 4)),
                           res_request = None, res_responses = None\<rparr>) e))
   \<and> (\<exists>res. calls (invoke (MergeCb acc ref0 (UserCb k)) None
                     (Some \<lparr>payload = DeviceId objects c, res_request = rq,
                            res_responses = rs\<rparr>) e')
              = calls e' @ [(k, None, Some res)]
           \<and> payload res = DeviceId (objects ++ acc) c)
   \<and> written (port (onReceive [0x11, 0x2B, 0x0E, 0x01, 0x01, 0x00, 0x00, 0x01,
                                0x02, 0x03, 0x42, 0x61, 0x7A, 0x43, 0x11]
           (onReceive [0x11, 0x2B, 0x0E, 0x01, 0x01, 0xFF, 0x02, 0x02,
                       0x00, 0x03, 0x46, 0x6F, 0x6F, 0x01, 0x03, 0x42, 0x61, 0x72, 0x9B, 0x97]
              (writeFC43 (Some 17) 1 0 (UserCb 0) open_client))))
       = [[0x11, 0x2B, 0x0E, 0x01, 0x00, 0xB1, 0xB4], [0x11, 0x2B, 0x0E, 0x01, 0x02, 0x30, 0x75]]
   \<and> calls (onReceive [0x11, 0x2B, 0x0E, 0x01, 0x01, 0x00, 0x00, 0x01,
                       0x02, 0x03, 0x42, 0x61, 0x7A, 0x43, 0x11]
           (onReceive [0x11, 0x2B, 0x0E, 0x01, 0x01, 0xFF, 0x02, 0x02,
                       0x00, 0x03, 0x46, 0x6F, 0x6F, 0x01, 0x03, 0x42, 0x61, 0x72, 0x9B, 0x97]
              (writeFC43 (Some 17) 1 0 (UserCb 0) open_client)))
       = [(0, None,
           Some \<lparr>payload = DeviceId [0 \<mapsto> ''Foo'', 1 \<mapsto> ''Bar'', 2 \<mapsto> ''Baz''] 1,
                 res_request = None, res_responses = None\<rparr>)]"
  using FC43_continuation_general [of e data result ref] invoke_MergeCb_UserCb
    fc43_scenario_written fc43_scenario
  by blast

theorem FC43_continuation_witness:
  "isOpen (port fc43_first)
   \<and> 8 \<le> length [0x11, 0x2B, 0x0E, 0x01, 0x01, 0xFF, 0x02, 0x02, 0x00, 0x03, 0x46, 0x6F,
                  0x6F, 0x01, 0x03, 0x42, 0x61, 0x72, 0x9B, 0x97 :: byte]
   \<and> [0x11, 0x2B, 0x0E, 0x01, 0x01, 0xFF, 0x02, 0x02, 0x00, 0x03, 0x46, 0x6F,
       0x6F, 0x01, 0x03, 0x42, 0x61, 0x72, 0x9B, 0x97 :: byte] ! 0 \<noteq> 0
   \<and> readFC43_loop [0x11, 0x2B, 0x0E, 0x01, 0x01, 0xFF, 0x02, 0x02, 0x00, 0x03, 0x46, 0x6F,
                    0x6F, 0x01, 0x03, 0x42, 0x61, 0x72, 0x9B, 0x97] 2 0 8 Map.empty
       = Some [0 \<mapsto> ''Foo'', 1 \<mapsto> ''Bar'']
   \<and> (\<exists>crc. written (port (readFC43 [0x11, 0x2B, 0x0E, 0x01, 0x01, 0xFF, 0x02, 0x02, 0x00,
                                       0x03, 0x46, 0x6F, 0x6F, 0x01, 0x03, 0x42, 0x61, 0x72,
                                       0x9B, 0x97] 0
                               fc43_first))
                = [[0x11, 0x2B, 0x0E, 0x01, 0x00, 0xB1, 0xB4],
                   [0x11, 0x2B, 0x0E, 0x01, 0x02] @ crc]
              \<and> length crc = 2)
   \<and> calls (readFC43 [0x11, 0x2B, 0x0E, 0x01, 0x01, 0xFF, 0x02, 0x02, 0x00, 0x03, 0x46, 0x6F,
                      0x6F, 0x01, 0x03, 0x42, 0x61, 0x72, 0x9B, 0x97] 0
              fc43_first) = []"
  using FC43_continuation
    [of fc43_first
        "[0x11, 0x2B, 0x0E, 0x01, 0x01, 0xFF, 0x02, 0x02, 0x00, 0x03, 0x46, 0x6F,
          0x6F, 0x01, 0x03, 0x42, 0x61, 0x72, 0x9B, 0x97]"
        "[0 \<mapsto> ''Foo'', 1 \<mapsto> ''Bar'']" 0, THEN conjunct1]
  by (simp add: readFC43_loop_first fc43_first_eq client_defs)



subsection \<open>Exception responses: the claim\<close>







subsection \<open>Broadcast writes\<close>

lemma fields_writeFC5:
  "dataAddress \<le> 65535 \<Longrightarrow>
   fields [writeUInt8 0, writeUInt8 5, writeUInt16BE dataAddress,
           (if state then writeUInt16BE 0xFF00 else writeUInt16BE 0x0000)]
     = Some [0x00, 0x05, word_of_nat (dataAddress div 256), word_of_nat (dataAddress mod 256),
             (if state then 0xFF else 0x00), 0x00]"
  by (simp add: writeUInt8_def writeUInt16BE_def)

text \<open>
  Claim C6, as stated, fails in its last part: after the broadcast write the slot
  still holds the transaction.
\<close>

theorem broadcast_write_coil_counterexample:
  "transactions (writeFC5 (Some 0) (Some 0xAC) True (UserCb 0) open_client)
     (transactionIdWrite (port (writeFC5 (Some 0) (Some 0xAC) True (UserCb 0) open_client)))
     \<noteq> None"
  by (simp add: submit_defs client_defs crc_write_coil_broadcast)

text \<open>
  Claim C6, amended. A write-single-coil request to the broadcast address 0 sets the
  expected response length to 0, writes the frame of 8 bytes to the transport, arms no
  timeout and at once calls the callback with an empty success result; the
  transaction stays in its slot (a slot is never cleared, the next request overwrites
  it).
\<close>

theorem broadcast_write_coil:
  assumes "isOpen (port e)" and "dataAddress \<le> 65535"
  shows "\<exists>buf ref.
           frame [writeUInt8 0, writeUInt8 5, writeUInt16BE dataAddress,
                  (if state then writeUInt16BE 0xFF00 else writeUInt16BE 0x0000)] = Some buf
         \<and> length buf = 8
         \<and> written (port (writeFC5 (Some 0) (Some dataAddress) state (UserCb k) e))
             = written (port e) @ [buf]
         \<and> timers (writeFC5 (Some 0) (Some dataAddress) state (UserCb k) e) = timers e
         \<and> timerSeq (writeFC5 (Some 0) (Some dataAddress) state (UserCb k) e) = timerSeq e
         \<and> calls (writeFC5 (Some 0) (Some dataAddress) state (UserCb k) e)
             = calls e @ [(k, None, Some \<lparr>payload = Empty, res_request = None,
                                            res_responses = None\<rparr>)]
         \<and> crashes (writeFC5 (Some 0) (Some dataAddress) state (UserCb k) e) = crashes e
         \<and> transactions (writeFC5 (Some 0) (Some dataAddress) state (UserCb k) e)
               (transactionIdWrite (port e)) = Some ref
         \<and> nextLength (heap (writeFC5 (Some 0) (Some dataAddress) state (UserCb k) e) ref)
             = Some 0
         \<and> timeoutHandle (heap (writeFC5 (Some 0) (Some dataAddress) state (UserCb k) e) ref)
             = None
         \<and> tnext (heap (writeFC5 (Some 0) (Some dataAddress) state (UserCb k) e) ref)
             = UserCb k"
  using assms frame_Some [OF fields_writeFC5 [OF assms(2), of state]]
  by (simp add: writeFC5_def Let_def setTransaction_def send_def writeBufferToPort_def
      newTransaction_def update_def)

theorem broadcast_write_coil_witness:
  "isOpen (port open_client) \<and> (0xAC::nat) \<le> 65535
   \<and> written (port (writeFC5 (Some 0) (Some 0xAC) True (UserCb 0) open_client))
       = [[0x00, 0x05, 0x00, 0xAC, 0xFF, 0x00, 0x4D, 0xCA]]
   \<and> timers (writeFC5 (Some 0) (Some 0xAC) True (UserCb 0) open_client) = Map.empty
   \<and> calls (writeFC5 (Some 0) (Some 0xAC) True (UserCb 0) open_client)
       = [(0, None, Some \<lparr>payload = Empty, res_request = None, res_responses = None\<rparr>)]"
  using broadcast_write_coil [of open_client "0xAC" True 0]
  by (simp add: client_defs frame_def writeUInt8_def writeUInt16BE_def writeUInt16LE_def
      crc_write_coil_broadcast)



subsection \<open>The callback after a timeout\<close>

lemma onReceive_after_timeout:
  assumes "transactions e (transactionIdRead (port e)) = Some ref"
    and "timeoutFired (heap e ref)"
  shows "onReceive data e = received data ref e"
  using assms by (simp add: onReceive_def Let_def received_heap)

lemma run_receive_after_timeout:
  assumes "transactions e (transactionIdRead (port e)) = Some ref"
    and "timeoutFired (heap e ref)"
  shows "calls (run (map EvReceive frames) e) = calls e
         \<and> crashes (run (map EvReceive frames) e) = crashes e"
  using assms
proof (induction frames arbitrary: e)
  case Nil
  then show ?case by simp
next
  case (Cons data frames)
  let ?e = "received data ref e"
  have "transactions ?e (transactionIdRead (port ?e)) = Some ref" "timeoutFired (heap ?e ref)"
    using Cons.prems by (simp_all add: received_frame received_heap)
  from Cons.IH [OF this] show ?case
    using Cons.prems by (simp add: onReceive_after_timeout received_frame)
qed

lemma fireTimeout_latch:
  assumes "timers e h = Some ref"
  shows "timeoutFired (heap (fireTimeout h e) ref)"
    and "transactions (fireTimeout h e) = transactions e"
    and "port (fireTimeout h e) = port e"
  using assms
  by (simp_all add: fireTimeout_def Let_def update_def invoke_frame)

lemma fireTimeout_calls:
  assumes "timers e h = Some ref" and "tnext (heap e ref) = UserCb k"
  shows "\<exists>err. calls (fireTimeout h e) = calls e @ [(k, Some err, None)]
           \<and> ename err = TransactionTimedOutError"
  using assms
  by (simp add: fireTimeout_def Let_def update_def newTransactionTimedOutError_def mkError_def)

lemma timed_client_eq:
  "timed_client = open_client
     \<lparr>port := (port open_client)\<lparr>written := [[0x11, 0x03, 0x00, 0x6B, 0x00, 0x02, 0xB7, 0x47]]\<rparr>,
      transactions := [Some 1 \<mapsto> 0],
      heap := (heap open_client)
        (0 := (newTransaction 17 (Some 0x6B) 3 (Some 9) False (UserCb 0))\<lparr>timeoutHandle := Some 0\<rparr>),
      heapSize := 1, timeout := Some 100, timers := [0 \<mapsto> 0], timerSeq := 1\<rparr>"
  by (simp add: timed_client_def setTimeout_def submit_defs client_defs
      crc_read_holding_request)

text \<open>
  Claim C1, as stated, fails: a transaction whose callback has fired with a decoded
  response stays in its slot without any mark, and a second frame for the slot calls
  the callback again, here with the timeout of 100 ms configured.
\<close>

theorem callback_fires_twice_counterexample:
  "calls (onReceive [0x11, 0x03, 0x04, 0xAE, 0x41, 0x56, 0x52, 0x25, 0x53]
           (onReceive [0x11, 0x03, 0x04, 0xAE, 0x41, 0x56, 0x52, 0x25, 0x53] timed_client))
     = [(0, None, Some \<lparr>payload = ReadRegister [0xAE41, 0x5652] [0xAE, 0x41, 0x56, 0x52],
                          res_request = None, res_responses = None\<rparr>),
        (0, None, Some \<lparr>payload = ReadRegister [0xAE41, 0x5652] [0xAE, 0x41, 0x56, 0x52],
                          res_request = None, res_responses = None\<rparr>)]"
  by (simp add: timed_client_eq client_defs receive_defs newTransaction_def
      crc_read_holding_response readFC3or4_scenario enronWide_def)

text \<open>
  Claim C1, amended. Once the timeout of the transaction in the read slot has fired,
  which calls the callback once with the timeout error, no later inbound frame for
  that slot, whatever it holds, calls the callback again.
\<close>

theorem no_callback_after_timeout:
  assumes "transactions e (transactionIdRead (port e)) = Some ref"
    and "timers e h = Some ref"
    and "tnext (heap e ref) = UserCb k"
  shows "(\<exists>err. calls (fireTimeout h e) = calls e @ [(k, Some err, None)]
            \<and> ename err = TransactionTimedOutError)
         \<and> calls (run (map EvReceive frames) (fireTimeout h e)) = calls (fireTimeout h e)"
proof -
  have "transactions (fireTimeout h e) (transactionIdRead (port (fireTimeout h e))) = Some ref"
    using assms(1) by (simp add: fireTimeout_latch [OF assms(2)])
  from run_receive_after_timeout [OF this fireTimeout_latch(1) [OF assms(2)]]
    fireTimeout_calls [OF assms(2) assms(3)]
  show ?thesis by blast
qed

theorem no_callback_after_timeout_witness:
  "transactions timed_client (transactionIdRead (port timed_client)) = Some 0
   \<and> timers timed_client 0 = Some 0
   \<and> tnext (heap timed_client 0) = UserCb 0
   \<and> (\<exists>err. calls (fireTimeout 0 timed_client) = [(0, Some err, None)]
          \<and> ename err = TransactionTimedOutError)
   \<and> calls (run [EvReceive [0x11, 0x03, 0x04, 0xAE, 0x41, 0x56, 0x52, 0x25, 0x53]]
              (fireTimeout 0 timed_client))
       = calls (fireTimeout 0 timed_client)"
proof -
  have h: "transactions timed_client (transactionIdRead (port timed_client)) = Some 0"
    "timers timed_client 0 = Some 0" "tnext (heap timed_client 0) = UserCb 0"
    "calls timed_client = []"
    by (simp_all add: timed_client_eq client_defs newTransaction_def)
  from no_callback_after_timeout [OF h(1) h(2) h(3),
      of "[[0x11, 0x03, 0x04, 0xAE, 0x41, 0x56, 0x52, 0x25, 0x53]]"] h
  show ?thesis by simp
qed



subsection \<open>Runs without a timeout duration\<close>

lemma still_refl [simp]: "still e e"
  by (simp add: still_def)

lemma still_trans: "still e e' \<Longrightarrow> still e' e'' \<Longrightarrow> still e e''"
  by (simp add: still_def)

lemma still_throw [simp]: "still e (throw x e)"
  by (simp add: still_def throw_def)

lemma still_update [simp]: "still e (update ref f e)"
  by (simp add: still_def update_def)

lemma still_setTransaction [simp]: "still e (setTransaction t e)"
  by (simp add: still_def setTransaction_def)

lemma plain_attach: "plain err \<Longrightarrow> plain (fst (attach t err res))"
  by (cases err) (simp_all add: attach_def plain_def)

lemma still_invoke: "plain err \<Longrightarrow> still e (invoke cb err res e)"
proof (induction cb arbitrary: err res)
  case NoCallback
  then show ?case by simp
next
  case (UserCb k)
  then show ?case
    by (cases err) (simp_all add: still_def timedOut_def plain_def)
next
  case (MergeCb result ref nxt)
  show ?case
  proof (cases res)
    case None
    then show ?thesis by simp
  next
    case (Some data)
    show ?thesis
    proof (cases "payload data")
      case (DeviceId objects conformityLevel)
      obtain err' res' where a: "attach (heap e ref) err
          (Some (data\<lparr>payload := DeviceId (objects ++ result) conformityLevel\<rparr>)) = (err', res')"
        by (cases "attach (heap e ref) err
          (Some (data\<lparr>payload := DeviceId (objects ++ result) conformityLevel\<rparr>))")
      with plain_attach [OF MergeCb.prems, of "heap e ref"
          "Some (data\<lparr>payload := DeviceId (objects ++ result) conformityLevel\<rparr>)"]
      have "plain err'" by simp
      from MergeCb.IH [OF this] show ?thesis
        using Some DeviceId a by simp
    qed (simp_all add: Some)
  qed
qed

lemma still_callNext: "plain err \<Longrightarrow> still e (callNext ref err res e)"
proof -
  assume p: "plain err"
  obtain err' res' where a: "attach (heap e ref) err res = (err', res')"
    by (cases "attach (heap e ref) err res")
  with plain_attach [OF p, of "heap e ref" res] have "plain err'" by simp
  then show ?thesis
    by (simp add: callNext_def a still_invoke)
qed

lemma plain_simps [simp]:
  "plain None" "plain (Some (mkError Error msg))" "plain (Some newPortNotOpenError)"
  "plain (Some newBadAddressError)" "plain (Some newBroadcastNotAllowedError)"
  "plain (Some (newModbusException c))" "plain (Some (lengthError t data))"
  "plain (Some enronError)"
  by (simp_all add: plain_def mkError_def newPortNotOpenError_def newBadAddressError_def
      newBroadcastNotAllowedError_def newModbusException_def lengthError_def enronError_def)

lemma still_report: "plain (Some err) \<Longrightarrow> still e (report nxt err e)"
  by (simp add: report_def still_invoke)

lemma still_writeBufferToPort:
  assumes "falsy (timeout e)"
  shows "still e (writeBufferToPort buffer tid e)"
proof -
  have s: "startTimeout (timeout e) ref e0 = (None, e0)" for ref e0
    using assms by (auto simp: startTimeout_def falsy_def)
  define e1 where "e1 =
            (case transactions e tid of
               None \<Rightarrow> e
             | Some ref \<Rightarrow>
                 (let e' =
                        (if (case nextLength (heap e ref) of None \<Rightarrow> False | Some n \<Rightarrow> n > 0)
                         then (case startTimeout (timeout e) ref
                                      (update ref (\<lambda>t. t\<lparr>timeoutFired := False\<rparr>) e) of
                                 (h, e'') \<Rightarrow> update ref (\<lambda>t. t\<lparr>timeoutHandle := h\<rparr>) e'')
                         else e)
                  in if debugEnabled e'
                     then update ref (\<lambda>t. t\<lparr>request := Some buffer, responses := Some []\<rparr>) e'
                     else e'))"
  have 1: "still e e1"
    by (simp add: e1_def s Let_def still_def update_def split: option.splits)
  define e2 where "e2 = e1\<lparr>port := (port e1)\<lparr>written := written (port e1) @ [buffer]\<rparr>\<rparr>"
  have 2: "still e1 e2"
    by (simp add: e2_def still_def)
  have 3: "still e2 (case transactions e2 tid of
            None \<Rightarrow> e2
          | Some ref \<Rightarrow>
              if nextLength (heap e2 ref) = Some 0
              then invoke (tnext (heap e2 ref)) None
                     (Some \<lparr>payload = Empty, res_request = None, res_responses = None\<rparr>) e2
              else e2)"
    by (simp add: still_invoke split: option.splits)
  have "writeBufferToPort buffer tid e = (case transactions e2 tid of
            None \<Rightarrow> e2
          | Some ref \<Rightarrow>
              if nextLength (heap e2 ref) = Some 0
              then invoke (tnext (heap e2 ref)) None
                     (Some \<lparr>payload = Empty, res_request = None, res_responses = None\<rparr>) e2
              else e2)"
    unfolding writeBufferToPort_def e2_def e1_def Let_def by (rule refl)
  with still_trans [OF still_trans [OF 1 2] 3] show ?thesis
    by simp
qed

lemma still_send:
  assumes "falsy (timeout e)"
  shows "still e (send buf e)"
  using still_writeBufferToPort [OF assms]
  by (simp add: send_def split: option.splits)

lemma still_set_send:
  assumes "falsy (timeout e)"
  shows "still e (send buf (setTransaction t e))"
proof -
  have "falsy (timeout (setTransaction t e))"
    using assms by (simp add: setTransaction_def)
  from still_trans [OF still_setTransaction still_send [OF this]] show ?thesis .
qed

lemma still_writeFC2: "falsy (timeout e) \<Longrightarrow> still e (writeFC2 a da n nxt code e)"
  by (simp add: writeFC2_def Let_def still_report still_set_send)

lemma still_writeFC4: "falsy (timeout e) \<Longrightarrow> still e (writeFC4 a da n nxt code e)"
  by (simp add: writeFC4_def Let_def still_report still_set_send split: option.splits)

lemma still_writeFC5: "falsy (timeout e) \<Longrightarrow> still e (writeFC5 a da st nxt e)"
  by (simp add: writeFC5_def Let_def still_report still_set_send)

lemma still_writeFC7: "falsy (timeout e) \<Longrightarrow> still e (writeFC7 a nxt e)"
  by (simp add: writeFC7_def Let_def still_report still_set_send)

lemma still_writeFC43: "falsy (timeout e) \<Longrightarrow> still e (writeFC43 a c obj nxt e)"
  by (simp add: writeFC43_def Let_def still_report still_set_send)

lemma still_writeFC6: "falsy (timeout e) \<Longrightarrow> still e (writeFC6 a da v nxt e)"
  by (simp add: writeFC6_def Let_def still_report still_set_send split: option.splits)

lemma still_writeFC16: "falsy (timeout e) \<Longrightarrow> still e (writeFC16 a da vs nxt e)"
  by (simp add: writeFC16_def Let_def still_report still_set_send)

lemma still_writeFC20: "falsy (timeout e) \<Longrightarrow> still e (writeFC20 a f r n t nxt e)"
  by (simp add: writeFC20_def Let_def still_report still_set_send)

lemma still_writeFC65: "falsy (timeout e) \<Longrightarrow> still e (writeFC65 a ps nxt e)"
  by (simp add: writeFC65_def Let_def still_report still_set_send)


lemma still_falsy: "still e e' \<Longrightarrow> falsy (timeout e) \<Longrightarrow> falsy (timeout e')"
  by (simp add: still_def)

lemma still_received: "timers e = Map.empty \<Longrightarrow> still e (received data ref e)"
  by (simp add: still_def received_frame received_timers split: option.splits)

lemma still_deliver: "still e (deliver ref p e)"
  by (simp add: deliver_def still_callNext split: option.splits)

lemma still_readFC43: "falsy (timeout e) \<Longrightarrow> still e (readFC43 data ref e)"
  by (simp add: readFC43_def still_writeFC43 still_callNext
      split: list.splits option.splits)

lemma still_dispatch: "falsy (timeout e) \<Longrightarrow> still e (dispatch code data ref e)"
  by (simp add: dispatch_def Let_def still_deliver still_readFC43 still_invoke
      split: option.splits)

lemma still_validate: "falsy (timeout e) \<Longrightarrow> still e (validate data ref e)"
  by (simp add: validate_def Let_def still_callNext still_dispatch
      split: option.splits prod.splits)

lemma still_onReceive:
  assumes "falsy (timeout e)" and "timers e = Map.empty"
  shows "still e (onReceive data e)"
proof (cases "transactions e (transactionIdRead (port e))")
  case None
  then show ?thesis by (simp add: onReceive_def)
next
  case (Some ref)
  have r: "still e (received data ref e)"
    using assms(2) by (rule still_received)
  have "still (received data ref e) (validate data ref (received data ref e))"
    using still_falsy [OF r assms(1)] by (rule still_validate)
  with r have "still e (validate data ref (received data ref e))"
    by (rule still_trans)
  with r Some show ?thesis
    by (simp add: onReceive_def Let_def)
qed

lemma fireTimeout_no_timer: "timers e = Map.empty \<Longrightarrow> fireTimeout h e = e"
  by (simp add: fireTimeout_def)

lemma still_step:
  assumes "falsy (timeout e)" and "timers e = Map.empty"
    and "\<forall>d. ev = EvSetTimeout d \<longrightarrow> falsy d"
  shows "falsy (timeout (step ev e)) \<and> timers (step ev e) = Map.empty
         \<and> filter timedOut (calls (step ev e)) = filter timedOut (calls e)"
proof (cases ev)
  case EvOpen
  then show ?thesis using assms by (simp add: modbus_open_def)
next
  case (EvSetTimeout d)
  then show ?thesis using assms by (simp add: setTimeout_def)
next
  case (EvSetDebug b)
  then show ?thesis using assms by (simp add: setDebugEnabled_def)
next
  case (EvWriteFC1 a da n k)
  with still_writeFC2 [OF assms(1), of a da n "userCb k" "Some 1"] assms
  show ?thesis by (simp add: writeFC1_def still_def)
next
  case (EvWriteFC2 a da n k)
  with still_writeFC2 [OF assms(1), of a da n "userCb k" None] assms
  show ?thesis by (simp add: still_def)
next
  case (EvWriteFC3 a da n k)
  with still_writeFC4 [OF assms(1), of a da n "userCb k" "Some 3"] assms
  show ?thesis by (simp add: writeFC3_def still_def)
next
  case (EvWriteFC4 a da n k)
  with still_writeFC4 [OF assms(1), of a da n "userCb k" None] assms
  show ?thesis by (simp add: still_def)
next
  case (EvWriteFC5 a da st k)
  with still_writeFC5 [OF assms(1), of a da st "userCb k"] assms
  show ?thesis by (simp add: still_def)
next
  case (EvWriteFC6 a da v k)
  with still_writeFC6 [OF assms(1), of a da v "userCb k"] assms
  show ?thesis by (simp add: still_def)
next
  case (EvWriteFC7 a k)
  with still_writeFC7 [OF assms(1), of a "userCb k"] assms
  show ?thesis by (simp add: still_def)
next
  case (EvWriteFC16 a da vs k)
  with still_writeFC16 [OF assms(1), of a da vs "userCb k"] assms
  show ?thesis by (simp add: still_def)
next
  case (EvWriteFC20 a f r n t k)
  with still_writeFC20 [OF assms(1), of a f r n t "userCb k"] assms
  show ?thesis by (simp add: still_def)
next
  case (EvWriteFC65 a ps k)
  with still_writeFC65 [OF assms(1), of a ps "userCb k"] assms
  show ?thesis by (simp add: still_def)
next
  case (EvWriteFC43 a c obj k)
  with still_writeFC43 [OF assms(1), of a c obj "userCb k"] assms
  show ?thesis by (simp add: still_def)
next
  case (EvReceive data)
  with still_onReceive [OF assms(1) assms(2), of data] assms
  show ?thesis by (simp add: still_def)
next
  case (EvTimeout h)
  then show ?thesis using assms by (simp add: fireTimeout_no_timer)
qed

lemma still_run:
  assumes "falsy (timeout e)" and "timers e = Map.empty"
    and "\<forall>d. EvSetTimeout d \<in> set evs \<longrightarrow> falsy d"
  shows "timers (run evs e) = Map.empty
         \<and> filter timedOut (calls (run evs e)) = filter timedOut (calls e)"
  using assms
proof (induction evs arbitrary: e)
  case Nil
  then show ?case by simp
next
  case (Cons ev evs)
  have "\<forall>d. ev = EvSetTimeout d \<longrightarrow> falsy d"
    using Cons.prems(3) by simp
  from still_step [OF Cons.prems(1) Cons.prems(2) this]
  have s: "falsy (timeout (step ev e))" "timers (step ev e) = Map.empty"
    "filter timedOut (calls (step ev e)) = filter timedOut (calls e)"
    by simp_all
  have "\<forall>d. EvSetTimeout d \<in> set evs \<longrightarrow> falsy d"
    using Cons.prems(3) by simp
  from Cons.IH [OF s(1) s(2) this] s(3) show ?case
    by simp
qed

text \<open>
  Claim C9. With a falsy duration (\<open>null\<close> or 0) \<open>_writeBufferToPort\<close> arms no timer,
  whatever response length the transaction expects. So in a run that starts without a
  pending timer and never sets a truthy duration, no timer is ever pending and no
  callback is called with a timeout error; and when a client has delivered a timeout
  error, a positive duration was configured before.
\<close>

theorem no_timer_without_duration:
  "(falsy (timeout e) \<longrightarrow>
      timers (writeBufferToPort buffer tid e) = timers e
      \<and> timerSeq (writeBufferToPort buffer tid e) = timerSeq e)
   \<and> (falsy (timeout e) \<and> timers e = Map.empty
        \<and> (\<forall>d. EvSetTimeout d \<in> set evs \<longrightarrow> falsy d) \<longrightarrow>
        timers (run evs e) = Map.empty
        \<and> filter timedOut (calls (run evs e)) = filter timedOut (calls e))
   \<and> ((\<exists>c \<in> set (calls (run evs (new_modbus p))). timedOut c) \<longrightarrow>
        (\<exists>d. EvSetTimeout (Some d) \<in> set evs \<and> 0 < d))"
proof -
  have 1: "falsy (timeout e) \<longrightarrow>
      timers (writeBufferToPort buffer tid e) = timers e
      \<and> timerSeq (writeBufferToPort buffer tid e) = timerSeq e"
    using still_writeBufferToPort [of e buffer tid] by (simp add: still_def)
  have 2: "falsy (timeout e) \<and> timers e = Map.empty
        \<and> (\<forall>d. EvSetTimeout d \<in> set evs \<longrightarrow> falsy d) \<longrightarrow>
        timers (run evs e) = Map.empty
        \<and> filter timedOut (calls (run evs e)) = filter timedOut (calls e)"
    using still_run [of e evs] by blast
  have 3: "(\<exists>c \<in> set (calls (run evs (new_modbus p))). timedOut c) \<longrightarrow>
        (\<exists>d. EvSetTimeout (Some d) \<in> set evs \<and> 0 < d)"
  proof (rule ccontr)
    assume n: "\<not> ((\<exists>c \<in> set (calls (run evs (new_modbus p))). timedOut c) \<longrightarrow>
        (\<exists>d. EvSetTimeout (Some d) \<in> set evs \<and> 0 < d))"
    then have a: "\<forall>d. EvSetTimeout (Some d) \<in> set evs \<longrightarrow> d = 0"
      by auto
    have "\<forall>d. EvSetTimeout d \<in> set evs \<longrightarrow> falsy d"
    proof (intro allI impI)
      fix d assume "EvSetTimeout d \<in> set evs"
      with a show "falsy d"
        by (cases d) (auto simp: falsy_def)
    qed
    from still_run [OF _ _ this, of "new_modbus p"]
    have "filter timedOut (calls (run evs (new_modbus p))) = []"
      by (simp add: new_modbus_def falsy_def)
    with n show False
      by (auto simp: filter_empty_conv)
  qed
  from 1 2 3 show ?thesis by blast
qed



theorem no_timer_without_duration_witness:
  "falsy (timeout (setTransaction (newTransaction 17 (Some 0x6B) 3 (Some 9) False (UserCb 0))
                     open_client))
   \<and> timers (writeBufferToPort [0x11, 0x03, 0x00, 0x6B, 0x00, 0x02, 0xB7, 0x47] (Some 1)
               (setTransaction (newTransaction 17 (Some 0x6B) 3 (Some 9) False (UserCb 0))
                  open_client)) = Map.empty
   \<and> falsy (Some 0)
   \<and> timers (run [EvSetTimeout (Some 0), EvWriteFC3 (Some 17) (Some 0x6B) 2 (Some 0),
                  EvTimeout 0] open_client) = Map.empty
   \<and> filter timedOut (calls (run [EvSetTimeout (Some 0),
                                   EvWriteFC3 (Some 17) (Some 0x6B) 2 (Some 0),
                                   EvTimeout 0] open_client)) = []
   \<and> (\<exists>c \<in> set (calls (run [EvOpen, EvSetTimeout (Some 100),
                               EvWriteFC3 (Some 17) (Some 0x6B) 2 (Some 0), EvTimeout 0]
                          (new_modbus closed_port))). timedOut c)
   \<and> (\<exists>d. EvSetTimeout (Some d)
            \<in> set [EvOpen, EvSetTimeout (Some 100),
                   EvWriteFC3 (Some 17) (Some 0x6B) 2 (Some 0), EvTimeout 0] \<and> 0 < d)"
proof -
  have c: "calls (run [EvOpen, EvSetTimeout (Some 100),
                       EvWriteFC3 (Some 17) (Some 0x6B) 2 (Some 0), EvTimeout 0]
                    (new_modbus closed_port))
             = [(0, Some newTransactionTimedOutError, None)]"
    by (simp add: userCb_def setTimeout_def submit_defs client_defs
        crc_read_holding_request fireTimeout_def)
  have t: "\<exists>c \<in> set (calls (run [EvOpen, EvSetTimeout (Some 100),
                               EvWriteFC3 (Some 17) (Some 0x6B) 2 (Some 0), EvTimeout 0]
                          (new_modbus closed_port))). timedOut c"
    unfolding c by (simp add: timedOut_def newTransactionTimedOutError_def mkError_def)
  have f: "falsy (timeout open_client)" "timers open_client = Map.empty"
    "calls open_client = []"
    "\<forall>d. EvSetTimeout d \<in> set [EvSetTimeout (Some 0),
          EvWriteFC3 (Some 17) (Some 0x6B) 2 (Some 0), EvTimeout 0] \<longrightarrow> falsy d"
    by (simp_all add: client_defs falsy_def)
  have g: "falsy (timeout (setTransaction
              (newTransaction 17 (Some 0x6B) 3 (Some 9) False (UserCb 0)) open_client))"
    "timers (setTransaction
              (newTransaction 17 (Some 0x6B) 3 (Some 9) False (UserCb 0)) open_client)
       = Map.empty"
    by (simp_all add: setTransaction_def client_defs falsy_def)
  have 1: "timers (writeBufferToPort [0x11, 0x03, 0x00, 0x6B, 0x00, 0x02, 0xB7, 0x47] (Some 1)
               (setTransaction (newTransaction 17 (Some 0x6B) 3 (Some 9) False (UserCb 0))
                  open_client)) = Map.empty"
    using no_timer_without_duration
      [of "setTransaction (newTransaction 17 (Some 0x6B) 3 (Some 9) False (UserCb 0))
             open_client"
          "[0x11, 0x03, 0x00, 0x6B, 0x00, 0x02, 0xB7, 0x47]" "Some 1" "[]" closed_port] g
    by metis
  have 2: "timers (run [EvSetTimeout (Some 0), EvWriteFC3 (Some 17) (Some 0x6B) 2 (Some 0),
                        EvTimeout 0] open_client) = Map.empty
           \<and> filter timedOut (calls (run [EvSetTimeout (Some 0),
                                   EvWriteFC3 (Some 17) (Some 0x6B) 2 (Some 0),
                                   EvTimeout 0] open_client))
               = filter timedOut (calls open_client)"
    using no_timer_without_duration
      [of open_client "[]" None
          "[EvSetTimeout (Some 0), EvWriteFC3 (Some 17) (Some 0x6B) 2 (Some 0), EvTimeout 0]"
          closed_port] f(1) f(2) f(4)
    by blast
  have 3: "falsy (Some 0)"
    by (simp add: falsy_def)
  have 4: "\<exists>d. EvSetTimeout (Some d)
            \<in> set [EvOpen, EvSetTimeout (Some 100),
                   EvWriteFC3 (Some 17) (Some 0x6B) 2 (Some 0), EvTimeout 0] \<and> 0 < d"
    by simp
  from 1 2 3 4 t g(1) show ?thesis
    by (simp only: f(3) filter.simps simp_thms)
qed


end
